theory Spec2Isabelle
  imports Main
begin

section \<open>JavaScript values and strings\<close>

text \<open>
  The values that reach \<open>startMongo\<close> through its options, the environment and the
  formula are strings, numbers and \<open>undefined\<close>. The program only converts a number to a
  string and tests it for truth, so a number is given by the text that \<open>Number::toString\<close>
  prints for it: \<open>27111\<close> is \<open>JNum ''27111''\<close>, \<open>0.5\<close> is \<open>JNum ''0.5''\<close> and
  \<open>1e21\<close> is \<open>JNum ''1e+21''\<close>. Both zeros print as \<open>0\<close>. Not every text is that of
  a number; what holds for every text holds for every number.
\<close>

datatype jsval = JUndefined | JStr string | JNum string

text \<open>
  \<open>ToBoolean\<close>: \<open>undefined\<close>, the empty string, the zeros and \<open>NaN\<close> are falsy.
\<close>

fun truthy :: "jsval \<Rightarrow> bool" where
  "truthy JUndefined = False"
| "truthy (JStr s) = (s \<noteq> [])"
| "truthy (JNum t) = (t \<noteq> ''0'' \<and> t \<noteq> ''NaN'')"

text \<open>\<open>a || b\<close>\<close>

definition js_or :: "jsval \<Rightarrow> jsval \<Rightarrow> jsval" where
  "js_or a b = (if truthy a then a else b)"

text \<open>\<open>v + ''\<close> and \<open>`${v}`\<close>: \<open>ToString\<close>.\<close>

fun js_to_string :: "jsval \<Rightarrow> string" where
  "js_to_string JUndefined = ''undefined''"
| "js_to_string (JStr s) = s"
| "js_to_string (JNum t) = t"

text \<open>
  \<open>s.split(sep)\<close> for a separator of one character: the string is cut at every
  occurrence, so that two separators in a row give an empty piece and the empty string
  gives one empty piece.
\<close>

fun split_on :: "char \<Rightarrow> string \<Rightarrow> string list" where
  "split_on c [] = [[]]"
| "split_on c (x # xs) =
     (if x = c then [] # split_on c xs
      else (case split_on c xs of [] \<Rightarrow> [[x]] | w # ws \<Rightarrow> (x # w) # ws))"

text \<open>\<open>pieces.join(sep)\<close> for a separator of one character.\<close>

fun join_with :: "char \<Rightarrow> string list \<Rightarrow> string" where
  "join_with c [] = []"
| "join_with c [w] = w"
| "join_with c (w # v # ws) = w @ c # join_with c (v # ws)"

text \<open>\<open>s.indexOf(pat)\<close>, \<open>None\<close> for \<open>-1\<close>.\<close>

fun index_of :: "string \<Rightarrow> string \<Rightarrow> nat option" where
  "index_of pat [] = (if pat = [] then Some 0 else None)"
| "index_of pat (c # cs) =
     (if take (length pat) (c # cs) = pat then Some 0 else map_option Suc (index_of pat cs))"

text \<open>
  \<open>GetSubstitution\<close> of ECMAScript for a string pattern, which has no capture groups:
  in the replacement text \<open>$$\<close> stands for a dollar sign, \<open>$&\<close> for the matched text,
  \<open>$`\<close> for the text before the match and \<open>$'\<close> for the text after it; a dollar sign
  followed by anything else is kept.
\<close>

fun get_substitution :: "string \<Rightarrow> string \<Rightarrow> string \<Rightarrow> string \<Rightarrow> string" where
  "get_substitution m b a [] = []"
| "get_substitution m b a [c] = [c]"
| "get_substitution m b a (c # d # r) =
     (if c = CHR ''$'' then
        (if d = CHR ''$'' then CHR ''$'' # get_substitution m b a r
         else if d = CHR ''&'' then m @ get_substitution m b a r
         else if d = CHR 0x60 then b @ get_substitution m b a r
         else if d = CHR 0x27 then a @ get_substitution m b a r
         else c # get_substitution m b a (d # r))
      else c # get_substitution m b a (d # r))"

text \<open>\<open>s.replace(pat, repl)\<close> for a string pattern: the first occurrence only.\<close>

definition js_replace :: "string \<Rightarrow> string \<Rightarrow> string \<Rightarrow> string" where
  "js_replace s pat repl =
     (case index_of pat s of
        None \<Rightarrow> s
      | Some i \<Rightarrow>
          (let pre = take i s; post = drop (i + length pat) s
           in pre @ get_substitution pat pre post repl @ post))"

section \<open>Node's \<open>path\<close> module (POSIX)\<close>

datatype error = Error string | TypeError string | HostError string

text \<open>
  \<open>normalizeString\<close> with \<open>allowAboveRoot = false\<close>: empty segments and \<open>.\<close> are
  dropped, \<open>..\<close> removes the segment before it (and nothing at the root).
\<close>

fun norm_step :: "string list \<Rightarrow> string \<Rightarrow> string list" where
  "norm_step st seg =
     (if seg = [] \<or> seg = ''.'' then st
      else if seg = ''..'' then butlast st
      else st @ [seg])"

definition normalize_segments :: "string \<Rightarrow> string list" where
  "normalize_segments p = foldl norm_step [] (split_on CHR ''/'' p)"

definition abs_path :: "string list \<Rightarrow> string" where
  "abs_path segs = CHR ''/'' # join_with CHR ''/'' segs"

text \<open>
  \<open>path.resolve\<close> reads its arguments from the right, prepending each non-empty one,
  until the path built so far is absolute; when the arguments run out it prepends the
  working directory (absolute on POSIX). The arguments are given last first.
\<close>

fun resolve_gather :: "string list \<Rightarrow> string \<Rightarrow> string \<Rightarrow> string" where
  "resolve_gather [] acc cwd = cwd @ CHR ''/'' # acc"
| "resolve_gather (p # ps) acc cwd =
     (if p = [] then resolve_gather ps acc cwd
      else if hd p = CHR ''/'' then p @ CHR ''/'' # acc
      else resolve_gather ps (p @ CHR ''/'' # acc) cwd)"

definition resolve_posix :: "string \<Rightarrow> string list \<Rightarrow> string" where
  "resolve_posix cwd ps = abs_path (normalize_segments (resolve_gather (rev ps) [] cwd))"

text \<open>
  \<open>validateString\<close> on each argument the loop reads (last first, up to the first absolute
  one): a value that is not a string raises a \<open>TypeError\<close>.
\<close>

fun validate_paths :: "jsval list \<Rightarrow> error + string list" where
  "validate_paths [] = Inr []"
| "validate_paths (JStr p # ps) =
     (if p \<noteq> [] \<and> hd p = CHR ''/'' then Inr [p]
      else (case validate_paths ps of Inl e \<Rightarrow> Inl e | Inr vs \<Rightarrow> Inr (p # vs)))"
| "validate_paths (v # ps) = Inl (TypeError ''ERR_INVALID_ARG_TYPE'')"

definition path_resolve :: "string \<Rightarrow> jsval list \<Rightarrow> error + string" where
  "path_resolve cwd args =
     (case validate_paths (rev args) of
        Inl e \<Rightarrow> Inl e
      | Inr vs \<Rightarrow> Inr (resolve_posix cwd (rev vs)))"

fun last_index :: "char \<Rightarrow> string \<Rightarrow> nat option" where
  "last_index c [] = None"
| "last_index c (x # xs) =
     (case last_index c xs of
        Some i \<Rightarrow> Some (Suc i)
      | None \<Rightarrow> if x = c then Some 0 else None)"

text \<open>The last non-empty segment of a path (trailing slashes are passed over).\<close>

definition last_segment :: "string \<Rightarrow> string" where
  "last_segment p =
     (case filter (\<lambda>s. s \<noteq> []) (split_on CHR ''/'' p) of [] \<Rightarrow> [] | s # ss \<Rightarrow> last (s # ss))"

text \<open>
  \<open>path.extname\<close>: from the last dot of the last segment to its end, the dot included;
  empty when there is no dot, when the only dot starts the segment, and for \<open>..\<close>.
\<close>

definition extname :: "string \<Rightarrow> string" where
  "extname p =
     (let b = last_segment p
      in case last_index CHR ''.'' b of
           None \<Rightarrow> []
         | Some i \<Rightarrow> if i = 0 \<or> b = ''..'' then [] else drop i b)"

section \<open>The formula, the options and the process environment\<close>

text \<open>
  \<open>./formula\<close> exports the formula as a constant; here it is a parameter of the model.
\<close>

record platform_spec =
  platform_name :: string
  platform_source :: string

record formula =
  formula_name :: string
  formula_version :: string
  formula_exec :: string
  formula_execArgs :: string
  formula_port :: jsval
  formula_platforms :: "platform_spec list"

text \<open>
  \<open>MongoOptions\<close>: every key is optional. \<open>None\<close> is a key that is absent from the
  object, \<open>Some JUndefined\<close> a key that is present with the value \<open>undefined\<close>.
  \<open>opts_args\<close> is \<open>Some xs\<close> exactly when \<open>Array.isArray(opts.args)\<close> holds.
\<close>

record MongoOptions =
  opts_name :: "jsval option"
  opts_platform :: "jsval option"
  opts_dir :: "jsval option"
  opts_port :: "jsval option"
  opts_args :: "string list option"

text \<open>Reading a property: an absent key reads as \<open>undefined\<close>.\<close>

definition read_prop :: "jsval option \<Rightarrow> jsval" where
  "read_prop k = (case k of None \<Rightarrow> JUndefined | Some v \<Rightarrow> v)"

text \<open>
  What the function reads from its process: \<open>process.env\<close>, \<open>process.platform\<close>,
  \<open>os.tmpdir()\<close> and the working directory that \<open>path.resolve\<close> falls back to.
\<close>

record process_env =
  env :: "string \<Rightarrow> string option"
  host_platform :: string
  tmpdir :: string
  cwd :: string

definition env_get :: "process_env \<Rightarrow> string \<Rightarrow> jsval" where
  "env_get pe k = (case env pe k of None \<Rightarrow> JUndefined | Some s \<Rightarrow> JStr s)"

text \<open>
  Object spread \<open>{ key: d, ...opts }\<close>: a key that \<open>opts\<close> has, whatever its value,
  replaces the default \<open>d\<close>.
\<close>

definition spread :: "jsval \<Rightarrow> jsval option \<Rightarrow> jsval option" where
  "spread d k = (case k of None \<Rightarrow> Some d | Some v \<Rightarrow> Some v)"

text \<open>Lines 27 to 33: the defaults, with the caller's options spread over them.\<close>

definition apply_defaults :: "process_env \<Rightarrow> formula \<Rightarrow> MongoOptions \<Rightarrow> MongoOptions" where
  "apply_defaults pe f opts =
     \<lparr> opts_name = spread (js_or (env_get pe ''MONGO_NAME'') (JStr ''default'')) (opts_name opts),
       opts_platform =
         spread (js_or (env_get pe ''MONGO_PLATFORM'') (JStr (host_platform pe))) (opts_platform opts),
       opts_dir =
         spread (js_or (env_get pe ''MONGO_DIR'') (JStr (resolve_posix (cwd pe) [tmpdir pe, ''mongo''])))
           (opts_dir opts),
       opts_port =
         spread (js_or (env_get pe ''MONGO_PORT'') (js_or (env_get pe ''PORT'') (formula_port f)))
           (opts_port opts),
       opts_args = opts_args opts \<rparr>"

text \<open>Line 36: \<open>formula.platforms.find(p => p.name === opts.platform)\<close>.\<close>

definition find_platform :: "formula \<Rightarrow> MongoOptions \<Rightarrow> platform_spec option" where
  "find_platform f opts =
     find (\<lambda>p. JStr (platform_name p) = read_prop (opts_platform opts)) (formula_platforms f)"

text \<open>Line 38: the message of the error thrown when no platform matches.\<close>

definition platform_message :: "formula \<Rightarrow> MongoOptions \<Rightarrow> string" where
  "platform_message f opts =
     ''Platform '' @ [CHR 0x27] @ js_to_string (read_prop (opts_platform opts)) @ [CHR 0x27]
       @ '' is not available for '' @ [CHR 0x27] @ formula_name f @ [CHR 0x27]"

section \<open>Path planning\<close>

record ResolvedPaths =
  dataDir :: string
  logsDir :: string
  logFile :: string
  sourceDir :: string
  sourceFileName :: string
  sourceFile :: string
  extractDir :: string
  execFile :: string

definition bind_err :: "error + 'a \<Rightarrow> ('a \<Rightarrow> error + 'b) \<Rightarrow> error + 'b" where
  "bind_err r k = (case r of Inl e \<Rightarrow> Inl e | Inr x \<Rightarrow> k x)"

text \<open>Lines 42 to 49, in the order of the source; the first \<open>TypeError\<close> ends the call.\<close>

definition resolve_paths ::
  "string \<Rightarrow> formula \<Rightarrow> MongoOptions \<Rightarrow> platform_spec \<Rightarrow> error + ResolvedPaths" where
  "resolve_paths wd f opts platform =
     bind_err (path_resolve wd
        [read_prop (opts_dir opts), JStr ''data'', read_prop (opts_name opts), JStr (formula_name f)]) (\<lambda>dataDir'.
     bind_err (path_resolve wd
        [read_prop (opts_dir opts), JStr ''logs'', read_prop (opts_name opts), JStr (formula_name f)]) (\<lambda>logsDir'.
     bind_err (path_resolve wd [JStr logsDir', JStr ''logs.txt'']) (\<lambda>logFile'.
     bind_err (path_resolve wd
        [read_prop (opts_dir opts), JStr ''source'', JStr (formula_name f), JStr (formula_version f),
         JStr (platform_name platform)]) (\<lambda>sourceDir'.
     (let sourceFileName' =
            formula_name f @ ''-'' @ formula_version f @ ''-'' @ platform_name platform
              @ extname (platform_source platform)
      in
     bind_err (path_resolve wd [JStr sourceDir', JStr sourceFileName']) (\<lambda>sourceFile'.
     bind_err (path_resolve wd [JStr sourceDir', JStr ''unpacked'']) (\<lambda>extractDir'.
     bind_err (path_resolve wd [JStr extractDir', JStr (formula_exec f)]) (\<lambda>execFile'.
       Inr \<lparr> dataDir = dataDir', logsDir = logsDir', logFile = logFile', sourceDir = sourceDir',
             sourceFileName = sourceFileName', sourceFile = sourceFile',
             extractDir = extractDir', execFile = execFile' \<rparr>))))))))"

section \<open>Arguments of the child process\<close>

text \<open>Lines 82 to 85.\<close>

definition build_exec_args :: "string \<Rightarrow> jsval \<Rightarrow> string \<Rightarrow> string list option \<Rightarrow> string list" where
  "build_exec_args template port_val data_dir extra =
     split_on CHR '' '' (js_replace (js_replace template ''{port}'' (js_to_string port_val)) ''{data}'' data_dir)
       @ (case extra of None \<Rightarrow> [] | Some xs \<Rightarrow> xs)"

section \<open>The host: file system, network, processes\<close>

datatype node = Dir | File string

type_synonym filesystem = "string \<Rightarrow> node option"

text \<open>\<open>fsExtra.existsSync\<close>\<close>

definition existsSync :: "filesystem \<Rightarrow> string \<Rightarrow> bool" where
  "existsSync fsys p = (fsys p \<noteq> None)"

text \<open>
  Every call that acts on the outside is recorded in a trace: directory creation,
  download, decompression, removal, opening a file, the call of \<open>execa\<close>, registering the
  shutdown hook, and the cancel request of \<open>close\<close>. \<open>existsSync\<close> only reads the file
  system and is a function of it. The spinner and the console line only display; they are
  left out.
\<close>

text \<open>
  What \<open>execa\<close> returns. When the spawn goes through, the object is the child process
  (named by its index) and \<open>execa\<close> has given it a \<open>cancel\<close> method. When
  \<open>child_process.spawn\<close> throws (an argument with a NUL character, for one), \<open>execa\<close>
  returns a bare \<open>ChildProcess\<close> with a rejected promise and no \<open>cancel\<close> method.
\<close>

datatype ExecaChildProcess = Spawned nat | SpawnFailed

datatype event =
    Mkdirp string
  | Download string string string
  | Decompress string string nat
  | Remove string
  | Open string string
  | Spawn string "string list" nat nat
  | OnShutdown ExecaChildProcess
  | Cancel nat

text \<open>
  What the libraries do to the file system is not in the repository. Each is a parameter:
  given the file system it says whether the call fails and what the file system is
  afterwards (a call that fails may still have written something). \<open>spawn_impl\<close> says
  whether \<open>child_process.spawn\<close> goes through (\<open>True\<close>) or throws.
\<close>

record host =
  mkdirp_impl :: "filesystem \<Rightarrow> string \<Rightarrow> error option \<times> filesystem"
  download_impl :: "filesystem \<Rightarrow> string \<Rightarrow> string \<Rightarrow> string \<Rightarrow> error option \<times> filesystem"
  decompress_impl :: "filesystem \<Rightarrow> string \<Rightarrow> string \<Rightarrow> nat \<Rightarrow> error option \<times> filesystem"
  remove_impl :: "filesystem \<Rightarrow> string \<Rightarrow> error option \<times> filesystem"
  open_impl :: "filesystem \<Rightarrow> string \<Rightarrow> string \<Rightarrow> (error + nat) \<times> filesystem"
  spawn_impl :: "filesystem \<Rightarrow> string \<Rightarrow> string list \<Rightarrow> bool"

text \<open>
  The state outside the function: the files, the calls made so far, the open file
  descriptors with their paths, the children spawned (a child is named by its index),
  the children that have exited, the registered shutdown hooks, and the \<open>SIGTERM\<close>
  signals sent to children.
\<close>

record world =
  fs :: filesystem
  trace :: "event list"
  open_fds :: "(nat \<times> string) list"
  children :: "(string \<times> string list) list"
  exited :: "nat list"
  hooks :: "ExecaChildProcess list"
  sigterms :: "nat list"

definition emit :: "event \<Rightarrow> world \<Rightarrow> world" where
  "emit e w = w\<lparr>trace := trace w @ [e]\<rparr>"

definition do_mkdirp :: "host \<Rightarrow> string \<Rightarrow> world \<Rightarrow> error option \<times> world" where
  "do_mkdirp h p w =
     (case mkdirp_impl h (fs w) p of (r, fs') \<Rightarrow> (r, (emit (Mkdirp p) w)\<lparr>fs := fs'\<rparr>))"

definition do_download :: "host \<Rightarrow> string \<Rightarrow> string \<Rightarrow> string \<Rightarrow> world \<Rightarrow> error option \<times> world" where
  "do_download h url dir filename w =
     (case download_impl h (fs w) url dir filename of
        (r, fs') \<Rightarrow> (r, (emit (Download url dir filename) w)\<lparr>fs := fs'\<rparr>))"

definition do_decompress :: "host \<Rightarrow> string \<Rightarrow> string \<Rightarrow> nat \<Rightarrow> world \<Rightarrow> error option \<times> world" where
  "do_decompress h src dst strip w =
     (case decompress_impl h (fs w) src dst strip of
        (r, fs') \<Rightarrow> (r, (emit (Decompress src dst strip) w)\<lparr>fs := fs'\<rparr>))"

definition do_remove :: "host \<Rightarrow> string \<Rightarrow> world \<Rightarrow> error option \<times> world" where
  "do_remove h p w =
     (case remove_impl h (fs w) p of (r, fs') \<Rightarrow> (r, (emit (Remove p) w)\<lparr>fs := fs'\<rparr>))"

definition do_open :: "host \<Rightarrow> string \<Rightarrow> string \<Rightarrow> world \<Rightarrow> (error + nat) \<times> world" where
  "do_open h p flags w =
     (case open_impl h (fs w) p flags of
        (Inl e, fs') \<Rightarrow> (Inl e, (emit (Open p flags) w)\<lparr>fs := fs'\<rparr>)
      | (Inr fd, fs') \<Rightarrow>
          (Inr fd, (emit (Open p flags) w)\<lparr>fs := fs', open_fds := open_fds w @ [(fd, p)]\<rparr>))"

text \<open>
  \<open>execa(file, args, {stdout, stderr})\<close> returns at once and never throws. A child that
  cannot start later (no such file, no permission) is a spawned child that exits; the
  failure shows only on its promise, which \<open>startMongo\<close> does not await.
\<close>

definition do_execa ::
  "host \<Rightarrow> string \<Rightarrow> string list \<Rightarrow> nat \<Rightarrow> nat \<Rightarrow> world \<Rightarrow> ExecaChildProcess \<times> world" where
  "do_execa h exe argv out err w =
     (if spawn_impl h (fs w) exe argv
      then (Spawned (length (children w)),
            (emit (Spawn exe argv out err) w)\<lparr>children := children w @ [(exe, argv)]\<rparr>)
      else (SpawnFailed, emit (Spawn exe argv out err) w))"

definition onShutdown :: "ExecaChildProcess \<Rightarrow> world \<Rightarrow> world" where
  "onShutdown server w = (emit (OnShutdown server) w)\<lparr>hooks := hooks w @ [server]\<rparr>"

text \<open>
  \<open>server.cancel()\<close> of \<open>execa\<close>: it calls \<open>kill()\<close>, which sends \<open>SIGTERM\<close> to a
  child that is still there and does nothing, without failing, for one that has exited.
\<close>

definition cancel :: "nat \<Rightarrow> world \<Rightarrow> world" where
  "cancel c w =
     (if c \<in> set (exited w) then emit (Cancel c) w
      else (emit (Cancel c) w)\<lparr>sigterms := sigterms w @ [c]\<rparr>)"

section \<open>\<open>startMongo\<close>\<close>

text \<open>
  Lines 58 to 71: the archive is looked for only when the unpacked tree is incomplete,
  and decompression follows the download (or the cached archive) at once.
\<close>

definition ensure_installed ::
  "host \<Rightarrow> platform_spec \<Rightarrow> ResolvedPaths \<Rightarrow> world \<Rightarrow> error option \<times> world" where
  "ensure_installed h platform p w =
     (if \<not> existsSync (fs w) (extractDir p) \<or> \<not> existsSync (fs w) (execFile p) then
        (case (if \<not> existsSync (fs w) (sourceFile p)
               then do_download h (platform_source platform) (sourceDir p) (sourceFileName p) w
               else (None, w)) of
           (Some e, w1) \<Rightarrow> (Some e, w1)
         | (None, w1) \<Rightarrow> do_decompress h (sourceFile p) (extractDir p) 1 w1)
      else (None, w))"

record MongoService =
  server :: ExecaChildProcess

text \<open>
  Line 94: \<open>close = () => Promise.resolve(server.cancel())\<close>. On a spawned child the call
  of \<open>cancel\<close> returns and the promise resolves. On the object of a spawn that threw,
  \<open>server.cancel\<close> is \<open>undefined\<close>: calling it throws a \<open>TypeError\<close> out of \<open>close\<close>
  before anything is done.
\<close>

datatype outcome = Resolved | Rejected error | Threw error

definition close :: "MongoService \<Rightarrow> world \<Rightarrow> outcome \<times> world" where
  "close svc w =
     (case server svc of
        Spawned c \<Rightarrow> (Resolved, cancel c w)
      | SpawnFailed \<Rightarrow> (Threw (TypeError ''server.cancel is not a function''), w))"

text \<open>The child ends by itself: a step of the host, not of the program.\<close>

definition child_exits :: "nat \<Rightarrow> world \<Rightarrow> world" where
  "child_exits c w = w\<lparr>exited := c # exited w\<rparr>"

definition startMongo ::
  "host \<Rightarrow> process_env \<Rightarrow> formula \<Rightarrow> MongoOptions \<Rightarrow> world \<Rightarrow> (error + MongoService) \<times> world" where
  "startMongo h pe f opts0 w =
     (let opts = apply_defaults pe f opts0 in
      case find_platform f opts of
        None \<Rightarrow> (Inl (Error (platform_message f opts)), w)
      | Some platform \<Rightarrow>
     (case resolve_paths (cwd pe) f opts platform of
        Inl e \<Rightarrow> (Inl e, w)
      | Inr p \<Rightarrow>
     (case do_mkdirp h (dataDir p) w of
        (Some e, w1) \<Rightarrow> (Inl e, w1)
      | (None, w1) \<Rightarrow>
     (case ensure_installed h platform p w1 of
        (Some e, w2) \<Rightarrow> (Inl e, w2)
      | (None, w2) \<Rightarrow>
     (case do_mkdirp h (logsDir p) w2 of
        (Some e, w3) \<Rightarrow> (Inl e, w3)
      | (None, w3) \<Rightarrow>
     (case do_remove h (logFile p) w3 of
        (Some e, w4) \<Rightarrow> (Inl e, w4)
      | (None, w4) \<Rightarrow>
     (case do_open h (logFile p) ''w+'' w4 of
        (Inl e, w5) \<Rightarrow> (Inl e, w5)
      | (Inr logsFile, w5) \<Rightarrow>
          (let execArgs =
                 build_exec_args (formula_execArgs f) (read_prop (opts_port opts)) (dataDir p) (opts_args opts)
           in case do_execa h (execFile p) execArgs logsFile logsFile w5 of
                (srv, w6) \<Rightarrow> (Inr \<lparr> server = srv \<rparr>, onShutdown srv w6)))))))))"

section \<open>The specification's wording, as definitions\<close>

text \<open>
  Precedence, highest first: the first layer that has a value wins, and the fallback
  applies when none has.
\<close>

fun first_present :: "jsval option list \<Rightarrow> jsval \<Rightarrow> jsval" where
  "first_present [] fallback = fallback"
| "first_present (None # layers) fallback = first_present layers fallback"
| "first_present (Some v # layers) fallback = v"

text \<open>The environment layer: a variable that is set to a non-empty string.\<close>

definition env_layer :: "process_env \<Rightarrow> string \<Rightarrow> jsval option" where
  "env_layer pe k =
     (case env pe k of None \<Rightarrow> None | Some s \<Rightarrow> if s = [] then None else Some (JStr s))"

text \<open>Whitespace: space, tab, line feed, vertical tab, form feed, carriage return.\<close>

definition is_whitespace :: "char \<Rightarrow> bool" where
  "is_whitespace c = (c \<in> set [CHR '' '', CHR 0x09, CHR 0x0A, CHR 0x0B, CHR 0x0C, CHR 0x0D])"

text \<open>Splitting on whitespace: the string is cut at every whitespace character.\<close>

fun split_whitespace :: "string \<Rightarrow> string list" where
  "split_whitespace [] = [[]]"
| "split_whitespace (x # xs) =
     (if is_whitespace x then [] # split_whitespace xs
      else (case split_whitespace xs of [] \<Rightarrow> [[x]] | w # ws \<Rightarrow> (x # w) # ws))"

text \<open>
  Putting a value in place of the first occurrence of a placeholder, as it is; a string
  without the placeholder is left alone.
\<close>

fun replace_first :: "string \<Rightarrow> string \<Rightarrow> string \<Rightarrow> string" where
  "replace_first ph v [] = (if ph = [] then v else [])"
| "replace_first ph v (c # cs) =
     (if take (length ph) (c # cs) = ph then v @ drop (length ph) (c # cs)
      else c # replace_first ph v cs)"

text \<open>Substituting a placeholder: each occurrence is replaced by the value as it is.\<close>

function substitute :: "string \<Rightarrow> string \<Rightarrow> string \<Rightarrow> string" where
  "substitute ph v [] = []"
| "substitute ph v (c # cs) =
     (if ph \<noteq> [] \<and> take (length ph) (c # cs) = ph
      then v @ substitute ph v (drop (length ph) (c # cs))
      else c # substitute ph v cs)"
  by pat_completeness auto
termination
  by (relation "measure (\<lambda>(ph, v, s). length s)") auto

declare substitute.simps [simp del]

definition spec_exec_args :: "string \<Rightarrow> jsval \<Rightarrow> string \<Rightarrow> string list option \<Rightarrow> string list" where
  "spec_exec_args template port_val data_dir extra =
     split_whitespace (substitute ''{data}'' data_dir (substitute ''{port}'' (js_to_string port_val) template))
       @ (case extra of None \<Rightarrow> [] | Some xs \<Rightarrow> xs)"

text \<open>
  A plain path segment: not empty, not \<open>.\<close> or \<open>..\<close>, and without a slash.
\<close>

definition plain_segment :: "string \<Rightarrow> bool" where
  "plain_segment s = (s \<noteq> [] \<and> s \<noteq> ''.'' \<and> s \<noteq> ''..'' \<and> CHR ''/'' \<notin> set s)"

text \<open>A relative path all of whose segments are plain, such as \<open>bin/mongod\<close>.\<close>

definition plain_relative :: "string \<Rightarrow> bool" where
  "plain_relative r = (\<forall>s\<in>set (split_on CHR ''/'' r). plain_segment s)"

fun is_download :: "event \<Rightarrow> bool" where
  "is_download (Download url dir filename) = True"
| "is_download e = False"

fun is_decompress :: "event \<Rightarrow> bool" where
  "is_decompress (Decompress src dst strip) = True"
| "is_decompress e = False"

fun is_cancel :: "event \<Rightarrow> bool" where
  "is_cancel (Cancel c) = True"
| "is_cancel e = False"

text \<open>The calls made on the way from the world \<open>w\<close> to the later world \<open>w'\<close>.\<close>

definition events_since :: "world \<Rightarrow> world \<Rightarrow> event list" where
  "events_since w w' = drop (length (trace w)) (trace w')"

section \<open>Concrete inputs\<close>

definition example_formula :: formula where
  "example_formula =
     \<lparr> formula_name = ''mongodb'', formula_version = ''4.0.3'', formula_exec = ''bin/mongod'',
       formula_execArgs = ''--port {port} --dbpath {data}'', formula_port = JNum ''27017'',
       formula_platforms =
         [\<lparr> platform_name = ''linux'', platform_source = ''https://example.org/dl/mongodb-linux.tgz'' \<rparr>,
          \<lparr> platform_name = ''darwin'', platform_source = ''https://example.org/dl/mongodb-osx.tgz'' \<rparr>] \<rparr>"

definition example_env :: process_env where
  "example_env =
     \<lparr> env = [''MONGO_PORT'' \<mapsto> ''27111''], host_platform = ''linux'', tmpdir = ''/tmp'',
       cwd = ''/home/dev'' \<rparr>"

definition no_opts :: MongoOptions where
  "no_opts = \<lparr> opts_name = None, opts_platform = None, opts_dir = None, opts_port = None, opts_args = None \<rparr>"

definition empty_world :: world where
  "empty_world =
     \<lparr> fs = (\<lambda>p. None), trace = [], open_fds = [], children = [], exited = [], hooks = [],
       sigterms = [] \<rparr>"

text \<open>
  A host on which every call on the file system succeeds: the download writes the
  archive, decompression writes the unpacked directory with two executables. Its
  \<open>spawn\<close> throws when the executable's path or an argument holds a NUL character, as
  Node's does.
\<close>

definition good_host :: host where
  "good_host =
     \<lparr> mkdirp_impl = (\<lambda>fsys p. (None, fsys(p \<mapsto> Dir))),
       download_impl = (\<lambda>fsys url dir filename. (None, fsys(dir @ ''/'' @ filename \<mapsto> File ''archive''))),
       decompress_impl = (\<lambda>fsys src dst strip.
          (None, fsys(dst \<mapsto> Dir, dst @ ''/bin/mongod'' \<mapsto> File ''mongod'',
                      dst @ ''/bin/mongos'' \<mapsto> File ''mongos''))),
       remove_impl = (\<lambda>fsys p. (None, fsys(p := None))),
       open_impl = (\<lambda>fsys p flags. (Inr 3, fsys(p \<mapsto> File []))),
       spawn_impl = (\<lambda>fsys exe argv. list_all (\<lambda>a. CHR 0x00 \<notin> set a) (exe # argv)) \<rparr>"

text \<open>
  A host whose transfer breaks off after part of the archive has been written to its
  destination (a full disk, say): the download fails and the partial file stays.
\<close>

definition interrupted_host :: host where
  "interrupted_host =
     good_host\<lparr> download_impl := (\<lambda>fsys url dir filename.
        (Some (HostError ''transfer interrupted''), fsys(dir @ ''/'' @ filename \<mapsto> File ''arch''))) \<rparr>"

definition example_paths :: ResolvedPaths where
  "example_paths =
     \<lparr> dataDir = ''/tmp/mongo/data/default/mongodb'',
       logsDir = ''/tmp/mongo/logs/default/mongodb'',
       logFile = ''/tmp/mongo/logs/default/mongodb/logs.txt'',
       sourceDir = ''/tmp/mongo/source/mongodb/4.0.3/linux'',
       sourceFileName = ''mongodb-4.0.3-linux.tgz'',
       sourceFile = ''/tmp/mongo/source/mongodb/4.0.3/linux/mongodb-4.0.3-linux.tgz'',
       extractDir = ''/tmp/mongo/source/mongodb/4.0.3/linux/unpacked'',
       execFile = ''/tmp/mongo/source/mongodb/4.0.3/linux/unpacked/bin/mongod'' \<rparr>"

definition linux_platform :: platform_spec where
  "linux_platform = \<lparr> platform_name = ''linux'', platform_source = ''https://example.org/dl/mongodb-linux.tgz'' \<rparr>"

text \<open>Options with every key given and an absolute directory.\<close>

definition full_opts :: MongoOptions where
  "full_opts =
     \<lparr> opts_name = Some (JStr ''default''), opts_platform = Some (JStr ''linux''),
       opts_dir = Some (JStr ''/tmp/mongo''), opts_port = Some (JNum ''27111''), opts_args = None \<rparr>"

text \<open>The same with a relative directory.\<close>

definition relative_dir_opts :: MongoOptions where
  "relative_dir_opts = full_opts\<lparr> opts_dir := Some (JStr ''mongo-data'') \<rparr>"

definition unsupported_opts :: MongoOptions where
  "unsupported_opts = no_opts\<lparr> opts_platform := Some (JStr ''unsupported-os'') \<rparr>"

text \<open>\<open>{ port: undefined }\<close>\<close>

definition undefined_port_opts :: MongoOptions where
  "undefined_port_opts = no_opts\<lparr> opts_port := Some JUndefined \<rparr>"

text \<open>A template whose first separator is a tab.\<close>

definition tab_template :: string where
  "tab_template = ''--port'' @ [CHR 0x09] @ ''{port} --dbpath {data}''"

text \<open>A port with a NUL character in it.\<close>

definition nul_port_opts :: MongoOptions where
  "nul_port_opts = no_opts\<lparr> opts_port := Some (JStr (''27111'' @ [CHR 0x00])) \<rparr>"

text \<open>
  A disk that holds the archive only; one that also holds the whole unpacked tree; and one
  on which unpacking broke off after \<open>bin/mongod\<close> was written and before \<open>bin/mongos\<close>.
\<close>

definition archive_world :: world where
  "archive_world = empty_world\<lparr> fs := [sourceFile example_paths \<mapsto> File ''archive''] \<rparr>"

definition installed_world :: world where
  "installed_world =
     empty_world\<lparr> fs := [sourceFile example_paths \<mapsto> File ''archive'',
                          extractDir example_paths \<mapsto> Dir,
                          execFile example_paths \<mapsto> File ''mongod'',
                          extractDir example_paths @ ''/bin/mongos'' \<mapsto> File ''mongos''] \<rparr>"

definition partial_world :: world where
  "partial_world =
     empty_world\<lparr> fs := [sourceFile example_paths \<mapsto> File ''archive'',
                          extractDir example_paths \<mapsto> Dir,
                          execFile example_paths \<mapsto> File ''mongod''] \<rparr>"

section \<open>Strings and paths: lemmas\<close>

lemma split_on_not_Nil [simp]: "split_on c s \<noteq> []"
  by (induction s) (auto split: list.splits)

lemma split_on_absent: "c \<notin> set s \<Longrightarrow> split_on c s = [s]"
  by (induction s) auto

lemma split_on_append: "split_on c (a @ c # b) = split_on c a @ split_on c b"
proof (induction a)
  case Nil
  then show ?case by simp
next
  case (Cons x a)
  obtain w ws where sp: "split_on c a = w # ws"
    by (cases "split_on c a") (use split_on_not_Nil in auto)
  show ?case using Cons sp by auto
qed

lemma split_on_pieces: "w \<in> set (split_on c s) \<Longrightarrow> c \<notin> set w"
proof (induction s arbitrary: w)
  case Nil
  then show ?case by simp
next
  case (Cons x s)
  obtain v vs where sp: "split_on c s = v # vs"
    by (cases "split_on c s") (use split_on_not_Nil in auto)
  show ?case
  proof (cases "x = c")
    case True
    with Cons show ?thesis by auto
  next
    case False
    with Cons.prems sp have "w = x # v \<or> w \<in> set vs" by auto
    then show ?thesis
    proof
      assume "w = x # v"
      moreover have "c \<notin> set v" using Cons.IH [of v] sp by simp
      ultimately show ?thesis using False by auto
    next
      assume "w \<in> set vs"
      then show ?thesis using Cons.IH [of w] sp by simp
    qed
  qed
qed

lemma join_split: "join_with c (split_on c s) = s"
proof (induction s)
  case Nil
  then show ?case by simp
next
  case (Cons x s)
  obtain v vs where sp: "split_on c s = v # vs"
    by (cases "split_on c s") (use split_on_not_Nil in auto)
  show ?case
  proof (cases "x = c")
    case True
    with Cons sp show ?thesis by simp
  next
    case False
    with Cons sp show ?thesis by (cases vs) auto
  qed
qed

lemma split_join: "xs \<noteq> [] \<Longrightarrow> \<forall>x\<in>set xs. c \<notin> set x \<Longrightarrow> split_on c (join_with c xs) = xs"
proof (induction c xs rule: join_with.induct)
  case (1 c)
  then show ?case by simp
next
  case (2 c w)
  then show ?case by (simp add: split_on_absent)
next
  case (3 c w v ws)
  then show ?case by (simp add: split_on_append split_on_absent)
qed

lemma join_with_append:
  "xs \<noteq> [] \<Longrightarrow> ys \<noteq> [] \<Longrightarrow> join_with c (xs @ ys) = join_with c xs @ c # join_with c ys"
  by (induction c xs rule: join_with.induct) (auto simp: neq_Nil_conv)

lemma foldl_norm_plain: "\<forall>x\<in>set xs. plain_segment x \<Longrightarrow> foldl norm_step st xs = st @ xs"
  by (induction xs arbitrary: st) (auto simp: plain_segment_def)

lemma foldl_norm_keeps_plain:
  "\<forall>x\<in>set st. plain_segment x \<Longrightarrow> \<forall>x\<in>set xs. CHR ''/'' \<notin> set x
     \<Longrightarrow> \<forall>x\<in>set (foldl norm_step st xs). plain_segment x"
proof (induction xs arbitrary: st)
  case Nil
  then show ?case by simp
next
  case (Cons a xs)
  have "\<forall>x\<in>set (norm_step st a). plain_segment x"
    using Cons.prems by (auto simp: plain_segment_def dest: in_set_butlastD)
  then show ?case using Cons by simp
qed

lemma normalize_segments_plain: "\<forall>x\<in>set (normalize_segments d). plain_segment x"
  unfolding normalize_segments_def
  by (rule foldl_norm_keeps_plain) (auto dest: split_on_pieces)

lemma plain_relative_facts:
  assumes "plain_relative r"
  shows "r \<noteq> []" "hd r \<noteq> CHR ''/''"
proof -
  show ne: "r \<noteq> []"
  proof
    assume "r = []"
    then have "[] \<in> set (split_on CHR ''/'' r)" by simp
    with assms have "plain_segment []" unfolding plain_relative_def by blast
    then show False by (simp add: plain_segment_def)
  qed
  show "hd r \<noteq> CHR ''/''"
  proof
    assume "hd r = CHR ''/''"
    with ne obtain t where "r = CHR ''/'' # t" by (cases r) auto
    then have "[] \<in> set (split_on CHR ''/'' r)" by simp
    with assms have "plain_segment []" unfolding plain_relative_def by blast
    then show False by (simp add: plain_segment_def)
  qed
qed

lemma plain_segment_relative: "plain_segment s \<Longrightarrow> plain_relative s"
  by (simp add: plain_relative_def plain_segment_def split_on_absent)

lemma gather_relative:
  "\<forall>r\<in>set rs. r \<noteq> [] \<and> hd r \<noteq> CHR ''/'' \<Longrightarrow> d \<noteq> [] \<Longrightarrow> hd d = CHR ''/''
     \<Longrightarrow> resolve_gather (rev rs @ [d]) acc wd = d @ CHR ''/'' # concat (map (\<lambda>r. r @ ''/'') rs) @ acc"
proof (induction rs arbitrary: acc rule: rev_induct)
  case Nil
  then show ?case by simp
next
  case (snoc y ys)
  then show ?case by simp
qed

lemma split_concat_relative:
  "split_on CHR ''/'' (concat (map (\<lambda>r. r @ ''/'') rs)) = concat (map (split_on CHR ''/'') rs) @ [[]]"
  by (induction rs) (auto simp: split_on_append)

lemma resolve_posix_absolute:
  assumes "d \<noteq> []" "hd d = CHR ''/''" "\<forall>r\<in>set rs. plain_relative r"
  shows "resolve_posix wd (d # rs) = abs_path (normalize_segments d @ concat (map (split_on CHR ''/'') rs))"
proof -
  have rel: "\<forall>r\<in>set rs. r \<noteq> [] \<and> hd r \<noteq> CHR ''/''"
    using assms(3) plain_relative_facts by blast
  have g: "resolve_gather (rev (d # rs)) [] wd = d @ CHR ''/'' # concat (map (\<lambda>r. r @ ''/'') rs)"
    using gather_relative [OF rel assms(1) assms(2), of "[]" wd] by simp
  have pl: "\<forall>x\<in>set (concat (map (split_on CHR ''/'') rs)). plain_segment x"
    using assms(3) by (auto simp: plain_relative_def)
  have "normalize_segments (d @ CHR ''/'' # concat (map (\<lambda>r. r @ ''/'') rs))
        = foldl norm_step (normalize_segments d) (concat (map (split_on CHR ''/'') rs) @ [[]])"
    by (simp add: normalize_segments_def split_on_append split_concat_relative)
  also have "\<dots> = normalize_segments d @ concat (map (split_on CHR ''/'') rs)"
    using foldl_norm_plain [OF pl, of "normalize_segments d"] by simp
  finally show ?thesis using g by (simp add: resolve_posix_def)
qed

lemma normalize_abs_path:
  assumes "\<forall>x\<in>set segs. plain_segment x"
  shows "normalize_segments (abs_path segs) = segs"
proof (cases "segs = []")
  case True
  then show ?thesis by (simp add: normalize_segments_def abs_path_def)
next
  case False
  have "\<forall>x\<in>set segs. CHR ''/'' \<notin> set x" using assms by (simp add: plain_segment_def)
  then have "split_on CHR ''/'' (join_with CHR ''/'' segs) = segs"
    using False split_join by blast
  then show ?thesis
    using foldl_norm_plain [OF assms, of "[]"] by (simp add: normalize_segments_def abs_path_def)
qed

lemma validate_paths_strings:
  "\<exists>vs. validate_paths (map JStr rs) = Inr vs \<and> (\<forall>acc. resolve_gather vs acc wd = resolve_gather rs acc wd)"
proof (induction rs)
  case Nil
  then show ?case by simp
next
  case (Cons r rs)
  then obtain vs where "validate_paths (map JStr rs) = Inr vs"
    "\<forall>acc. resolve_gather vs acc wd = resolve_gather rs acc wd" by blast
  then show ?case by auto
qed

lemma path_resolve_strings: "path_resolve wd (map JStr ss) = Inr (resolve_posix wd ss)"
proof -
  obtain vs where "validate_paths (map JStr (rev ss)) = Inr vs"
    "\<forall>acc. resolve_gather vs acc wd = resolve_gather (rev ss) acc wd"
    using validate_paths_strings by blast
  then show ?thesis by (simp add: path_resolve_def resolve_posix_def rev_map)
qed


section \<open>Path planning: the layout\<close>

lemma last_segment_no_slash: "CHR ''/'' \<notin> set (last_segment p)"
proof (cases "filter (\<lambda>s. s \<noteq> []) (split_on CHR ''/'' p)")
  case Nil
  then show ?thesis by (simp add: last_segment_def)
next
  case (Cons s ss)
  then have "last (s # ss) \<in> set (filter (\<lambda>s. s \<noteq> []) (split_on CHR ''/'' p))"
    using last_in_set [of "s # ss"] by simp
  then have "last (s # ss) \<in> set (split_on CHR ''/'' p)" by simp
  then have "CHR ''/'' \<notin> set (last (s # ss))" by (rule split_on_pieces)
  then show ?thesis using Cons by (simp add: last_segment_def)
qed

lemma extname_no_slash: "CHR ''/'' \<notin> set (extname p)"
proof -
  have "set (extname p) \<subseteq> set (last_segment p)"
    by (auto simp: extname_def Let_def split: option.splits dest: in_set_dropD)
  then show ?thesis using last_segment_no_slash by blast
qed

lemma sourceFileName_plain:
  assumes "plain_segment a" "plain_segment b" "plain_segment c"
  shows "plain_segment (a @ ''-'' @ b @ ''-'' @ c @ extname u)"
proof -
  let ?n = "a @ ''-'' @ b @ ''-'' @ c @ extname u"
  have dash: "CHR ''-'' \<in> set ?n" by simp
  have "CHR ''-'' \<notin> set ''.''" "CHR ''-'' \<notin> set ''..''" by simp_all
  with dash have "?n \<noteq> ''.''" "?n \<noteq> ''..''" by metis+
  moreover have "?n \<noteq> []" by simp
  moreover have "CHR ''/'' \<notin> set ?n"
    using assms extname_no_slash [of u] by (simp add: plain_segment_def)
  ultimately show ?thesis unfolding plain_segment_def by blast
qed

lemma abs_path_absolute: "abs_path segs \<noteq> []" "hd (abs_path segs) = CHR ''/''"
  by (simp_all add: abs_path_def)

lemma abs_path_snoc: "segs \<noteq> [] \<Longrightarrow> abs_path (segs @ [x]) = abs_path segs @ CHR ''/'' # x"
  by (simp add: abs_path_def join_with_append)

lemma abs_path_append:
  "segs \<noteq> [] \<Longrightarrow> xs \<noteq> [] \<Longrightarrow> abs_path (segs @ xs) = abs_path segs @ CHR ''/'' # join_with CHR ''/'' xs"
  by (simp add: abs_path_def join_with_append)

lemma resolve_child:
  assumes "\<forall>x\<in>set segs. plain_segment x" "segs \<noteq> []" "plain_relative r"
  shows "resolve_posix wd [abs_path segs, r] = abs_path segs @ CHR ''/'' # r"
proof -
  have "resolve_posix wd [abs_path segs, r]
        = abs_path (normalize_segments (abs_path segs) @ concat (map (split_on CHR ''/'') [r]))"
    by (rule resolve_posix_absolute) (use assms abs_path_absolute in auto)
  also have "\<dots> = abs_path (segs @ split_on CHR ''/'' r)"
    using normalize_abs_path [OF assms(1)] by simp
  also have "\<dots> = abs_path segs @ CHR ''/'' # join_with CHR ''/'' (split_on CHR ''/'' r)"
    by (rule abs_path_append) (use assms in auto)
  finally show ?thesis by (simp add: join_split)
qed

lemma path_resolve2: "path_resolve wd [JStr a, JStr b] = Inr (resolve_posix wd [a, b])"
  using path_resolve_strings [of wd "[a, b]"] by simp

lemma path_resolve4:
  "path_resolve wd [JStr a, JStr b, JStr c, JStr d] = Inr (resolve_posix wd [a, b, c, d])"
  using path_resolve_strings [of wd "[a, b, c, d]"] by simp

lemma path_resolve5:
  "path_resolve wd [JStr a, JStr b, JStr c, JStr d, JStr e] = Inr (resolve_posix wd [a, b, c, d, e])"
  using path_resolve_strings [of wd "[a, b, c, d, e]"] by simp

lemma plain_literals: "plain_segment ''data''" "plain_segment ''logs''" "plain_segment ''source''"
  "plain_segment ''unpacked''" "plain_segment ''logs.txt''"
  by (simp_all add: plain_segment_def)

lemma resolve_paths_absolute:
  assumes dir: "read_prop (opts_dir opts) = JStr d" "d \<noteq> []" "hd d = CHR ''/''"
      and name: "read_prop (opts_name opts) = JStr n" "plain_segment n"
      and formula: "plain_segment (formula_name f)" "plain_segment (formula_version f)"
      and platform: "plain_segment (platform_name pl)"
      and exec: "\<forall>s\<in>set (split_on CHR ''/'' (formula_exec f)). plain_segment s"
  shows "\<exists>p. (\<forall>wd. resolve_paths wd f opts pl = Inr p)
       \<and> dataDir p = abs_path (normalize_segments d @ [''data'', n, formula_name f])
       \<and> logsDir p = abs_path (normalize_segments d @ [''logs'', n, formula_name f])
       \<and> logFile p = logsDir p @ ''/logs.txt''
       \<and> sourceDir p = abs_path (normalize_segments d
                          @ [''source'', formula_name f, formula_version f, platform_name pl])
       \<and> sourceFileName p = formula_name f @ ''-'' @ formula_version f @ ''-'' @ platform_name pl
                          @ extname (platform_source pl)
       \<and> sourceFile p = sourceDir p @ ''/'' @ sourceFileName p
       \<and> extractDir p = sourceDir p @ ''/unpacked''
       \<and> execFile p = extractDir p @ ''/'' @ formula_exec f"
proof -
  let ?base = "normalize_segments d"
  let ?fn = "formula_name f @ ''-'' @ formula_version f @ ''-'' @ platform_name pl
               @ extname (platform_source pl)"
  let ?data = "?base @ [''data'', n, formula_name f]"
  let ?logs = "?base @ [''logs'', n, formula_name f]"
  let ?src = "?base @ [''source'', formula_name f, formula_version f, platform_name pl]"
  let ?unp = "?src @ [''unpacked'']"
  have base: "\<forall>x\<in>set ?base. plain_segment x" by (rule normalize_segments_plain)
  have rel: "plain_relative ''data''" "plain_relative ''logs''" "plain_relative ''source''"
    "plain_relative ''unpacked''" "plain_relative ''logs.txt''" "plain_relative n"
    "plain_relative (formula_name f)" "plain_relative (formula_version f)"
    "plain_relative (platform_name pl)"
    using plain_literals name(2) formula platform by (simp_all add: plain_segment_relative)
  have sp: "split_on CHR ''/'' ''data'' = [''data'']" "split_on CHR ''/'' ''logs'' = [''logs'']"
    "split_on CHR ''/'' ''source'' = [''source'']" "split_on CHR ''/'' n = [n]"
    "split_on CHR ''/'' (formula_name f) = [formula_name f]"
    "split_on CHR ''/'' (formula_version f) = [formula_version f]"
    "split_on CHR ''/'' (platform_name pl) = [platform_name pl]"
    using name(2) formula platform by (simp_all add: split_on_absent plain_segment_def)
  have r_data: "resolve_posix wd [d, ''data'', n, formula_name f] = abs_path ?data" for wd
    using resolve_posix_absolute [OF dir(2) dir(3), of "[''data'', n, formula_name f]" wd] rel sp
    by simp
  have r_logs: "resolve_posix wd [d, ''logs'', n, formula_name f] = abs_path ?logs" for wd
    using resolve_posix_absolute [OF dir(2) dir(3), of "[''logs'', n, formula_name f]" wd] rel sp
    by simp
  have r_src: "resolve_posix wd [d, ''source'', formula_name f, formula_version f, platform_name pl]
        = abs_path ?src" for wd
    using resolve_posix_absolute [OF dir(2) dir(3),
        of "[''source'', formula_name f, formula_version f, platform_name pl]" wd] rel sp
    by simp
  have logs_plain: "\<forall>x\<in>set ?logs. plain_segment x"
    using base plain_literals name(2) formula by simp
  have src_plain: "\<forall>x\<in>set ?src. plain_segment x"
    using base plain_literals formula platform by simp
  have unp_plain: "\<forall>x\<in>set ?unp. plain_segment x"
    using src_plain plain_literals by simp
  have fn_plain: "plain_relative ?fn"
    using sourceFileName_plain [OF formula platform] by (rule plain_segment_relative)
  have exec_rel: "plain_relative (formula_exec f)"
    using exec by (simp add: plain_relative_def)
  have r_logfile: "resolve_posix wd [abs_path ?logs, ''logs.txt''] = abs_path ?logs @ ''/logs.txt''" for wd
    using resolve_child [OF logs_plain _ rel(5), of wd] by simp
  have r_file: "resolve_posix wd [abs_path ?src, ?fn] = abs_path ?src @ ''/'' @ ?fn" for wd
    using resolve_child [OF src_plain _ fn_plain, of wd] by simp
  have r_unp: "resolve_posix wd [abs_path ?src, ''unpacked''] = abs_path ?src @ ''/unpacked''" for wd
    using resolve_child [OF src_plain _ rel(4), of wd] by simp
  have unp_eq: "abs_path ?src @ ''/unpacked'' = abs_path ?unp"
    using abs_path_snoc [of ?src "''unpacked''"] by simp
  have r_exec: "resolve_posix wd [abs_path ?src @ ''/unpacked'', formula_exec f]
        = abs_path ?src @ ''/unpacked'' @ ''/'' @ formula_exec f" for wd
    using resolve_child [OF unp_plain _ exec_rel, of wd] unp_eq by simp
  let ?p = "\<lparr> dataDir = abs_path ?data, logsDir = abs_path ?logs,
              logFile = abs_path ?logs @ ''/logs.txt'', sourceDir = abs_path ?src,
              sourceFileName = ?fn, sourceFile = abs_path ?src @ ''/'' @ ?fn,
              extractDir = abs_path ?src @ ''/unpacked'',
              execFile = abs_path ?src @ ''/unpacked'' @ ''/'' @ formula_exec f \<rparr>"
  have "resolve_paths wd f opts pl = Inr ?p" for wd
    unfolding resolve_paths_def bind_err_def Let_def dir(1) name(1)
    by (simp only: path_resolve2 path_resolve4 path_resolve5 sum.case r_data r_logs r_src
          r_logfile r_file r_unp r_exec)
  then show ?thesis by (intro exI [of _ ?p]) simp
qed

lemma resolve_paths_inputs:
  assumes "read_prop (opts_dir opts') = read_prop (opts_dir opts)"
      and "read_prop (opts_name opts') = read_prop (opts_name opts)"
      and "formula_name f' = formula_name f" "formula_version f' = formula_version f"
      and "formula_exec f' = formula_exec f"
      and "platform_name pl' = platform_name pl" "platform_source pl' = platform_source pl"
  shows "resolve_paths wd f' opts' pl' = resolve_paths wd f opts pl"
  using assms by (simp add: resolve_paths_def)

lemmas path_steps =
  resolve_paths_def bind_err_def path_resolve_def resolve_posix_def abs_path_def
  normalize_segments_def extname_def last_segment_def Let_def

text \<open>
  Claim C7 (amended). Path planning (lines 42 to 49) is a function of the base directory,
  the instance name, the formula's name, version and executable path, the platform's name
  and source URL, and the working directory of the process, which \<open>path.resolve\<close> prepends
  to a relative base directory: calls that agree on these give the same paths. For an
  absolute base directory \<open>d\<close>, an instance
  name and formula and platform names that are plain segments, and an executable path made
  of plain segments, the result is the same for every working directory and follows the
  declared layout: \<open>dataDir\<close> and \<open>logsDir\<close> are the normalised base directory followed by
  \<open>data\<close> (or \<open>logs\<close>), the name and the formula name; \<open>sourceDir\<close> is the base followed
  by \<open>source\<close>, formula name, version and platform name; the archive is
  \<open>sourceDir/<name>-<version>-<platform><ext>\<close> with \<open><ext>\<close> the \<open>path.extname\<close> of the
  source URL (its dot included, empty when the URL has none); \<open>extractDir\<close> is
  \<open>sourceDir/unpacked\<close> and \<open>execFile\<close> the executable path below it.
\<close>

theorem resolve_paths_layout:
  "(read_prop (opts_dir opts') = read_prop (opts_dir opts)
      \<and> read_prop (opts_name opts') = read_prop (opts_name opts)
      \<and> formula_name f' = formula_name f \<and> formula_version f' = formula_version f
      \<and> formula_exec f' = formula_exec f
      \<and> platform_name pl' = platform_name pl \<and> platform_source pl' = platform_source pl
    \<longrightarrow> resolve_paths wd f' opts' pl' = resolve_paths wd f opts pl)
   \<and> (read_prop (opts_dir opts) = JStr d \<and> d \<noteq> [] \<and> hd d = CHR ''/''
      \<and> read_prop (opts_name opts) = JStr n \<and> plain_segment n
      \<and> plain_segment (formula_name f) \<and> plain_segment (formula_version f)
      \<and> plain_segment (platform_name pl)
      \<and> (\<forall>s\<in>set (split_on CHR ''/'' (formula_exec f)). plain_segment s)
    \<longrightarrow> (\<exists>p. (\<forall>wd. resolve_paths wd f opts pl = Inr p)
       \<and> dataDir p = abs_path (normalize_segments d @ [''data'', n, formula_name f])
       \<and> logsDir p = abs_path (normalize_segments d @ [''logs'', n, formula_name f])
       \<and> logFile p = logsDir p @ ''/logs.txt''
       \<and> sourceDir p = abs_path (normalize_segments d
                          @ [''source'', formula_name f, formula_version f, platform_name pl])
       \<and> sourceFileName p = formula_name f @ ''-'' @ formula_version f @ ''-'' @ platform_name pl
                          @ extname (platform_source pl)
       \<and> sourceFile p = sourceDir p @ ''/'' @ sourceFileName p
       \<and> extractDir p = sourceDir p @ ''/unpacked''
       \<and> execFile p = extractDir p @ ''/'' @ formula_exec f))"
proof (intro conjI impI)
  assume "read_prop (opts_dir opts') = read_prop (opts_dir opts)
      \<and> read_prop (opts_name opts') = read_prop (opts_name opts)
      \<and> formula_name f' = formula_name f \<and> formula_version f' = formula_version f
      \<and> formula_exec f' = formula_exec f
      \<and> platform_name pl' = platform_name pl \<and> platform_source pl' = platform_source pl"
  then show "resolve_paths wd f' opts' pl' = resolve_paths wd f opts pl"
    by (intro resolve_paths_inputs) simp_all
next
  assume h: "read_prop (opts_dir opts) = JStr d \<and> d \<noteq> [] \<and> hd d = CHR ''/''
      \<and> read_prop (opts_name opts) = JStr n \<and> plain_segment n
      \<and> plain_segment (formula_name f) \<and> plain_segment (formula_version f)
      \<and> plain_segment (platform_name pl)
      \<and> (\<forall>s\<in>set (split_on CHR ''/'' (formula_exec f)). plain_segment s)"
  show "\<exists>p. (\<forall>wd. resolve_paths wd f opts pl = Inr p)
       \<and> dataDir p = abs_path (normalize_segments d @ [''data'', n, formula_name f])
       \<and> logsDir p = abs_path (normalize_segments d @ [''logs'', n, formula_name f])
       \<and> logFile p = logsDir p @ ''/logs.txt''
       \<and> sourceDir p = abs_path (normalize_segments d
                          @ [''source'', formula_name f, formula_version f, platform_name pl])
       \<and> sourceFileName p = formula_name f @ ''-'' @ formula_version f @ ''-'' @ platform_name pl
                          @ extname (platform_source pl)
       \<and> sourceFile p = sourceDir p @ ''/'' @ sourceFileName p
       \<and> extractDir p = sourceDir p @ ''/unpacked''
       \<and> execFile p = extractDir p @ ''/'' @ formula_exec f"
    by (rule resolve_paths_absolute) (use h in simp_all)
qed

text \<open>
  A formula with another default port and options without a port give the same paths;
  the layout at \<open>dir = /tmp/mongo\<close>, \<open>name = default\<close>, from two working directories.
\<close>

theorem resolve_paths_layout_witness:
  "resolve_paths ''/home/dev'' (example_formula\<lparr>formula_port := JNum ''1''\<rparr>) full_opts linux_platform
     = resolve_paths ''/home/dev'' example_formula (full_opts\<lparr>opts_port := None\<rparr>) linux_platform
   \<and> (\<exists>p. resolve_paths ''/home/dev'' example_formula full_opts linux_platform = Inr p
     \<and> resolve_paths ''/srv/app'' example_formula full_opts linux_platform = Inr p
     \<and> dataDir p = ''/tmp/mongo/data/default/mongodb''
     \<and> logsDir p = ''/tmp/mongo/logs/default/mongodb''
     \<and> logFile p = ''/tmp/mongo/logs/default/mongodb/logs.txt''
     \<and> sourceDir p = ''/tmp/mongo/source/mongodb/4.0.3/linux''
     \<and> sourceFileName p = ''mongodb-4.0.3-linux.tgz''
     \<and> sourceFile p = ''/tmp/mongo/source/mongodb/4.0.3/linux/mongodb-4.0.3-linux.tgz''
     \<and> extractDir p = ''/tmp/mongo/source/mongodb/4.0.3/linux/unpacked''
     \<and> execFile p = ''/tmp/mongo/source/mongodb/4.0.3/linux/unpacked/bin/mongod'')"
proof -
  note layout = resolve_paths_layout [where opts = full_opts and f = example_formula and pl = linux_platform
      and d = "''/tmp/mongo''" and n = "''default''"]
  have same: "resolve_paths ''/home/dev'' (example_formula\<lparr>formula_port := JNum ''1''\<rparr>) full_opts linux_platform
     = resolve_paths ''/home/dev'' example_formula (full_opts\<lparr>opts_port := None\<rparr>) linux_platform"
  proof -
    have "resolve_paths ''/home/dev'' (example_formula\<lparr>formula_port := JNum ''1''\<rparr>) full_opts linux_platform
        = resolve_paths ''/home/dev'' example_formula full_opts linux_platform"
      using layout [where opts' = full_opts and f' = "example_formula\<lparr>formula_port := JNum ''1''\<rparr>"
          and pl' = linux_platform and wd = "''/home/dev''"]
      by simp
    moreover have "resolve_paths ''/home/dev'' example_formula (full_opts\<lparr>opts_port := None\<rparr>) linux_platform
        = resolve_paths ''/home/dev'' example_formula full_opts linux_platform"
      using layout [where opts' = "full_opts\<lparr>opts_port := None\<rparr>" and f' = example_formula
          and pl' = linux_platform and wd = "''/home/dev''"]
      by simp
    ultimately show ?thesis by simp
  qed
  have hyp: "read_prop (opts_dir full_opts) = JStr ''/tmp/mongo'' \<and> ''/tmp/mongo'' \<noteq> []
      \<and> hd ''/tmp/mongo'' = CHR ''/''
      \<and> read_prop (opts_name full_opts) = JStr ''default'' \<and> plain_segment ''default''
      \<and> plain_segment (formula_name example_formula) \<and> plain_segment (formula_version example_formula)
      \<and> plain_segment (platform_name linux_platform)
      \<and> (\<forall>s\<in>set (split_on CHR ''/'' (formula_exec example_formula)). plain_segment s)"
    by (simp add: full_opts_def read_prop_def plain_segment_def example_formula_def linux_platform_def)
  obtain p where p: "\<forall>wd. resolve_paths wd example_formula full_opts linux_platform = Inr p"
    "dataDir p = abs_path (normalize_segments ''/tmp/mongo'' @ [''data'', ''default'', formula_name example_formula])"
    "logsDir p = abs_path (normalize_segments ''/tmp/mongo'' @ [''logs'', ''default'', formula_name example_formula])"
    "logFile p = logsDir p @ ''/logs.txt''"
    "sourceDir p = abs_path (normalize_segments ''/tmp/mongo''
        @ [''source'', formula_name example_formula, formula_version example_formula,
           platform_name linux_platform])"
    "sourceFileName p = formula_name example_formula @ ''-'' @ formula_version example_formula @ ''-''
        @ platform_name linux_platform @ extname (platform_source linux_platform)"
    "sourceFile p = sourceDir p @ ''/'' @ sourceFileName p"
    "extractDir p = sourceDir p @ ''/unpacked''"
    "execFile p = extractDir p @ ''/'' @ formula_exec example_formula"
    using layout hyp by blast
  have "dataDir p = ''/tmp/mongo/data/default/mongodb''"
    "logsDir p = ''/tmp/mongo/logs/default/mongodb''"
    "sourceDir p = ''/tmp/mongo/source/mongodb/4.0.3/linux''"
    "sourceFileName p = ''mongodb-4.0.3-linux.tgz''"
    using p(2,3,5,6)
    by (simp_all add: abs_path_def normalize_segments_def example_formula_def linux_platform_def
        extname_def last_segment_def)
  then have "\<exists>p. resolve_paths ''/home/dev'' example_formula full_opts linux_platform = Inr p
     \<and> resolve_paths ''/srv/app'' example_formula full_opts linux_platform = Inr p
     \<and> dataDir p = ''/tmp/mongo/data/default/mongodb''
     \<and> logsDir p = ''/tmp/mongo/logs/default/mongodb''
     \<and> logFile p = ''/tmp/mongo/logs/default/mongodb/logs.txt''
     \<and> sourceDir p = ''/tmp/mongo/source/mongodb/4.0.3/linux''
     \<and> sourceFileName p = ''mongodb-4.0.3-linux.tgz''
     \<and> sourceFile p = ''/tmp/mongo/source/mongodb/4.0.3/linux/mongodb-4.0.3-linux.tgz''
     \<and> extractDir p = ''/tmp/mongo/source/mongodb/4.0.3/linux/unpacked''
     \<and> execFile p = ''/tmp/mongo/source/mongodb/4.0.3/linux/unpacked/bin/mongod''"
    using p(1,4,7,8,9) by (intro exI [of _ p]) (simp add: example_formula_def)
  then show ?thesis using same by blast
qed

text \<open>
  Claim C7 as stated makes the paths a function of (baseDir, name, formula.name,
  formula.version, platform.name) alone. With the relative base directory \<open>mongo-data\<close>
  and everything else equal, the working directories \<open>/home/dev\<close> and \<open>/srv/app\<close> give
  different paths.
\<close>

theorem resolve_paths_cwd_counterexample:
  "map_sum id dataDir (resolve_paths ''/home/dev'' example_formula relative_dir_opts linux_platform)
     = Inr ''/home/dev/mongo-data/data/default/mongodb''
   \<and> map_sum id dataDir (resolve_paths ''/srv/app'' example_formula relative_dir_opts linux_platform)
     = Inr ''/srv/app/mongo-data/data/default/mongodb''
   \<and> resolve_paths ''/home/dev'' example_formula relative_dir_opts linux_platform
     \<noteq> resolve_paths ''/srv/app'' example_formula relative_dir_opts linux_platform"
  by (simp add: path_steps relative_dir_opts_def full_opts_def example_formula_def linux_platform_def
      read_prop_def)

section \<open>The arguments of the child\<close>

lemma index_of_first:
  "pat \<noteq> [] \<Longrightarrow> hd pat \<notin> set a \<Longrightarrow> index_of pat (a @ pat @ b) = Some (length a)"
proof (induction a)
  case Nil
  then show ?case by (cases pat) simp_all
next
  case (Cons x a)
  then obtain y ys where pat: "pat = y # ys" by (cases pat) auto
  with Cons.prems have "x \<noteq> y" by auto
  then have "take (length pat) (x # a @ pat @ b) \<noteq> pat" using pat by auto
  then show ?case using Cons by simp
qed

lemma index_of_absent: "pat \<noteq> [] \<Longrightarrow> hd pat \<notin> set s \<Longrightarrow> index_of pat s = None"
proof (induction s)
  case Nil
  then show ?case by simp
next
  case (Cons x s)
  then obtain y ys where pat: "pat = y # ys" by (cases pat) auto
  with Cons.prems have "x \<noteq> y" by auto
  then have "take (length pat) (x # s) \<noteq> pat" using pat by auto
  then show ?case using Cons by simp
qed

lemma get_substitution_plain: "CHR ''$'' \<notin> set r \<Longrightarrow> get_substitution m b a r = r"
  by (induction m b a r rule: get_substitution.induct) auto

lemma js_replace_first:
  assumes "pat \<noteq> []" "hd pat \<notin> set a" "CHR ''$'' \<notin> set v"
  shows "js_replace (a @ pat @ b) pat v = a @ v @ b"
  using index_of_first [OF assms(1,2), of b] get_substitution_plain [OF assms(3)]
  by (simp add: js_replace_def Let_def)

lemma js_replace_absent: "pat \<noteq> [] \<Longrightarrow> hd pat \<notin> set s \<Longrightarrow> js_replace s pat v = s"
  by (simp add: js_replace_def index_of_absent)

lemma js_replace_plain:
  assumes "CHR ''$'' \<notin> set v"
  shows "js_replace s ph v = replace_first ph v s"
proof -
  have idx: "(case index_of ph s of None \<Rightarrow> s
              | Some i \<Rightarrow> take i s @ v @ drop (i + length ph) s) = replace_first ph v s"
  proof (induction s)
    case Nil
    then show ?case by simp
  next
    case (Cons c cs)
    show ?case
    proof (cases "take (length ph) (c # cs) = ph")
      case True
      then show ?thesis by simp
    next
      case False
      then show ?thesis using Cons by (cases "index_of ph cs") simp_all
    qed
  qed
  show ?thesis
    using idx by (simp add: js_replace_def Let_def get_substitution_plain [OF assms] split: option.splits)
qed

text \<open>
  Claim C2 (amended). For every template, every port and data directory whose text has no
  \<open>$\<close>, and every list of extra arguments, the argument list is the template, with the
  stringified port in place of the first \<open>{port}\<close> and then the data directory in place of
  the first \<open>{data}\<close>, cut at every space character, followed by the extra arguments in
  the order given. Cutting at every space character means: joining the pieces with single
  spaces gives the substituted template back and no piece contains a space (so two spaces
  in a row give an empty argument, and a tab or a line break does not separate).
\<close>

theorem build_exec_args_shape:
  assumes port: "CHR ''$'' \<notin> set (js_to_string pv)" and data: "CHR ''$'' \<notin> set d"
  shows "build_exec_args t pv d extra
           = split_on CHR '' '' (replace_first ''{data}'' d (replace_first ''{port}'' (js_to_string pv) t))
               @ (case extra of None \<Rightarrow> [] | Some xs \<Rightarrow> xs)
       \<and> join_with CHR '' ''
            (split_on CHR '' '' (replace_first ''{data}'' d (replace_first ''{port}'' (js_to_string pv) t)))
           = replace_first ''{data}'' d (replace_first ''{port}'' (js_to_string pv) t)
       \<and> list_all (\<lambda>w. CHR '' '' \<notin> set w)
            (split_on CHR '' '' (replace_first ''{data}'' d (replace_first ''{port}'' (js_to_string pv) t)))"
proof -
  let ?s = "replace_first ''{data}'' d (replace_first ''{port}'' (js_to_string pv) t)"
  have "js_replace (js_replace t ''{port}'' (js_to_string pv)) ''{data}'' d = ?s"
    by (simp add: js_replace_plain [OF port] js_replace_plain [OF data])
  then have "build_exec_args t pv d extra
      = split_on CHR '' '' ?s @ (case extra of None \<Rightarrow> [] | Some xs \<Rightarrow> xs)"
    by (simp add: build_exec_args_def)
  moreover have "join_with CHR '' '' (split_on CHR '' '' ?s) = ?s" by (rule join_split)
  moreover have "list_all (\<lambda>w. CHR '' '' \<notin> set w) (split_on CHR '' '' ?s)"
    unfolding list_all_iff using split_on_pieces by blast
  ultimately show ?thesis by blast
qed

text \<open>
  The example of the claim: template \<open>--port {port} --dbpath {data}\<close>, port \<open>27111\<close>,
  data directory \<open>/x/data\<close> and the extra argument \<open>--quiet\<close>, which comes last.
\<close>

theorem build_exec_args_shape_witness:
  "CHR ''$'' \<notin> set (js_to_string (JNum ''27111'')) \<and> CHR ''$'' \<notin> set ''/x/data''
   \<and> build_exec_args ''--port {port} --dbpath {data}'' (JNum ''27111'') ''/x/data'' (Some [''--quiet''])
     = [''--port'', ''27111'', ''--dbpath'', ''/x/data'', ''--quiet'']"
proof -
  have port: "CHR ''$'' \<notin> set (js_to_string (JNum ''27111''))" by simp
  have data: "CHR ''$'' \<notin> set ''/x/data''" by simp
  show ?thesis
    using build_exec_args_shape [OF port data, of "''--port {port} --dbpath {data}''" "Some [''--quiet'']"]
      port data
    by simp
qed

text \<open>
  Claim C2 as stated splits on whitespace. With a tab between \<open>--port\<close> and \<open>{port}\<close> the
  code keeps \<open>--port<TAB>27111\<close> as one argument, where splitting on whitespace gives two.
\<close>

theorem build_exec_args_tab_counterexample:
  "build_exec_args tab_template (JNum ''27111'') ''/x/data'' None
     = [''--port'' @ [CHR 0x09] @ ''27111'', ''--dbpath'', ''/x/data'']
   \<and> spec_exec_args tab_template (JNum ''27111'') ''/x/data'' None
     = [''--port'', ''27111'', ''--dbpath'', ''/x/data'']
   \<and> build_exec_args tab_template (JNum ''27111'') ''/x/data'' None
     \<noteq> spec_exec_args tab_template (JNum ''27111'') ''/x/data'' None"
  by (simp add: build_exec_args_def spec_exec_args_def tab_template_def js_replace_def Let_def
      is_whitespace_def substitute.simps)

text \<open>
  A data directory with \<open>$&\<close> in its name: \<open>String.replace\<close> reads it as a pattern and
  puts the placeholder itself there, so the child is given a \<open>--dbpath\<close> that is not the
  directory made for it.
\<close>

lemma build_exec_args_dollar:
  "build_exec_args ''--port {port} --dbpath {data}'' (JNum ''27111'') ''/x/$&/data'' None
     = [''--port'', ''27111'', ''--dbpath'', ''/x/{data}/data'']"
  by (simp add: build_exec_args_def js_replace_def Let_def)

section \<open>Defaults and the platform check\<close>

lemmas merge_steps = apply_defaults_def spread_def read_prop_def js_or_def env_get_def

lemma env_or: "js_or (env_get pe k) d = first_present [env_layer pe k] d"
  by (cases "env pe k") (simp_all add: js_or_def env_get_def env_layer_def)

lemma spread_first: "read_prop (spread d k) = first_present [k] d"
  by (cases k) (simp_all add: spread_def read_prop_def)

lemma first_present_layers:
  "first_present (l # m # ls) d = first_present [l] (first_present (m # ls) d)"
  by (cases l) simp_all

text \<open>
  Claim C8. The merged options follow the precedence, highest first: the option the
  caller passed, then the environment variable (\<open>MONGO_NAME\<close>; \<open>MONGO_PORT\<close> and after it
  \<open>PORT\<close>; \<open>MONGO_PLATFORM\<close>; \<open>MONGO_DIR\<close>), then the fallback: \<open>default\<close> for the name,
  the formula's port, the host platform, and \<open>mongo\<close> below the temporary directory for
  \<open>dir\<close>. An environment variable counts when it is set to a non-empty string
  (\<open>||\<close> passes over the empty string).
\<close>

theorem apply_defaults_precedence:
  "read_prop (opts_name (apply_defaults pe f opts))
     = first_present [opts_name opts, env_layer pe ''MONGO_NAME''] (JStr ''default'')
   \<and> read_prop (opts_port (apply_defaults pe f opts))
     = first_present [opts_port opts, env_layer pe ''MONGO_PORT'', env_layer pe ''PORT''] (formula_port f)
   \<and> read_prop (opts_platform (apply_defaults pe f opts))
     = first_present [opts_platform opts, env_layer pe ''MONGO_PLATFORM''] (JStr (host_platform pe))
   \<and> read_prop (opts_dir (apply_defaults pe f opts))
     = first_present [opts_dir opts, env_layer pe ''MONGO_DIR'']
         (JStr (resolve_posix (cwd pe) [tmpdir pe, ''mongo'']))
   \<and> opts_args (apply_defaults pe f opts) = opts_args opts"
  by (simp add: apply_defaults_def spread_first env_or first_present_layers)

text \<open>
  With \<open>MONGO_PORT=27111\<close> and no options the port is \<open>27111\<close>, the name \<open>default\<close>, the
  directory \<open>/tmp/mongo\<close>; an explicit port wins over the variable; with only \<open>PORT\<close> set
  that one is taken; with neither, the formula's port.
\<close>

theorem apply_defaults_precedence_witness:
  "read_prop (opts_name (apply_defaults example_env example_formula no_opts)) = JStr ''default''
   \<and> read_prop (opts_port (apply_defaults example_env example_formula no_opts)) = JStr ''27111''
   \<and> read_prop (opts_platform (apply_defaults example_env example_formula no_opts)) = JStr ''linux''
   \<and> read_prop (opts_dir (apply_defaults example_env example_formula no_opts)) = JStr ''/tmp/mongo''
   \<and> read_prop (opts_port (apply_defaults example_env example_formula full_opts)) = JNum ''27111''
   \<and> read_prop (opts_port (apply_defaults (example_env\<lparr>env := [''PORT'' \<mapsto> ''8080'']\<rparr>) example_formula no_opts))
        = JStr ''8080''
   \<and> read_prop (opts_port (apply_defaults (example_env\<lparr>env := Map.empty\<rparr>) example_formula no_opts))
        = JNum ''27017''"
  using apply_defaults_precedence [of example_env example_formula no_opts]
    apply_defaults_precedence [of example_env example_formula full_opts]
    apply_defaults_precedence [of "example_env\<lparr>env := [''PORT'' \<mapsto> ''8080'']\<rparr>" example_formula no_opts]
    apply_defaults_precedence [of "example_env\<lparr>env := Map.empty\<rparr>" example_formula no_opts]
  by (simp add: env_layer_def example_env_def example_formula_def no_opts_def full_opts_def
      resolve_posix_def abs_path_def normalize_segments_def)

text \<open>
  Claim C9. A key that the caller's options hold with the value \<open>undefined\<close> stays
  \<open>undefined\<close> in the merged options: the spread copies it over the default, whatever the
  environment and the formula say.
\<close>

theorem apply_defaults_explicit_undefined:
  "(opts_name opts = Some JUndefined \<longrightarrow> read_prop (opts_name (apply_defaults pe f opts)) = JUndefined)
   \<and> (opts_port opts = Some JUndefined \<longrightarrow> read_prop (opts_port (apply_defaults pe f opts)) = JUndefined)
   \<and> (opts_platform opts = Some JUndefined
        \<longrightarrow> read_prop (opts_platform (apply_defaults pe f opts)) = JUndefined)
   \<and> (opts_dir opts = Some JUndefined \<longrightarrow> read_prop (opts_dir (apply_defaults pe f opts)) = JUndefined)"
  by (simp add: merge_steps)

text \<open>
  \<open>{ port: undefined }\<close> with \<open>MONGO_PORT=27111\<close> set: the merged port is \<open>undefined\<close>.
\<close>

theorem apply_defaults_explicit_undefined_witness:
  "opts_port undefined_port_opts = Some JUndefined
   \<and> env example_env ''MONGO_PORT'' = Some ''27111''
   \<and> read_prop (opts_port (apply_defaults example_env example_formula undefined_port_opts)) = JUndefined"
proof -
  have h: "opts_port undefined_port_opts = Some JUndefined"
    by (simp add: undefined_port_opts_def no_opts_def)
  have e: "env example_env ''MONGO_PORT'' = Some ''27111''"
    by (simp add: example_env_def)
  show ?thesis
    using apply_defaults_explicit_undefined [of undefined_port_opts example_env example_formula] h e
    by simp
qed

text \<open>
  Claim C1. When no entry of \<open>formula.platforms\<close> has the selected platform name (the
  explicit option, else \<open>MONGO_PLATFORM\<close>, else the host platform), \<open>startMongo\<close> fails
  with the error of line 38 and the world is as it was: no directory created, no file
  changed, no download, nothing in the trace.
\<close>

theorem startMongo_unsupported_platform:
  assumes "find_platform f (apply_defaults pe f opts) = None"
  shows "startMongo h pe f opts w = (Inl (Error (platform_message f (apply_defaults pe f opts))), w)"
  using assms by (simp add: startMongo_def Let_def)

text \<open>
  \<open>platform: "unsupported-os"\<close> on an empty disk: the call is rejected and the world is
  still the empty one.
\<close>

theorem startMongo_unsupported_platform_witness:
  "find_platform example_formula (apply_defaults example_env example_formula unsupported_opts) = None
   \<and> startMongo good_host example_env example_formula unsupported_opts empty_world
       = (Inl (Error (''Platform '' @ [CHR 0x27] @ ''unsupported-os'' @ [CHR 0x27]
                        @ '' is not available for '' @ [CHR 0x27] @ ''mongodb'' @ [CHR 0x27])),
          empty_world)"
proof -
  have h: "find_platform example_formula (apply_defaults example_env example_formula unsupported_opts) = None"
    by (simp add: find_platform_def merge_steps example_formula_def unsupported_opts_def no_opts_def)
  have m: "platform_message example_formula (apply_defaults example_env example_formula unsupported_opts)
     = ''Platform '' @ [CHR 0x27] @ ''unsupported-os'' @ [CHR 0x27]
         @ '' is not available for '' @ [CHR 0x27] @ ''mongodb'' @ [CHR 0x27]"
    by (simp add: platform_message_def merge_steps example_formula_def unsupported_opts_def no_opts_def)
  show ?thesis
    using startMongo_unsupported_platform [OF h, of good_host empty_world] h m by simp
qed

section \<open>The install step\<close>

lemma emit_simps:
  "fs (emit e w) = fs w" "trace (emit e w) = trace w @ [e]" "open_fds (emit e w) = open_fds w"
  "children (emit e w) = children w" "exited (emit e w) = exited w" "hooks (emit e w) = hooks w"
  "sigterms (emit e w) = sigterms w"
  by (simp_all add: emit_def)

lemma do_download_result:
  "download_impl h (fs w) url dir filename = (r, fs')
     \<Longrightarrow> do_download h url dir filename w = (r, (emit (Download url dir filename) w)\<lparr>fs := fs'\<rparr>)"
  by (simp add: do_download_def)

lemma do_decompress_trace:
  "trace (snd (do_decompress h src dst n w)) = trace w @ [Decompress src dst n]"
  by (simp add: do_decompress_def emit_simps split: prod.splits)

lemma ensure_installed_skip:
  "existsSync (fs w) (extractDir p) \<Longrightarrow> existsSync (fs w) (execFile p)
     \<Longrightarrow> ensure_installed h pl p w = (None, w)"
  by (simp add: ensure_installed_def)

lemma ensure_installed_cached:
  "\<not> (existsSync (fs w) (extractDir p) \<and> existsSync (fs w) (execFile p))
     \<Longrightarrow> existsSync (fs w) (sourceFile p)
     \<Longrightarrow> ensure_installed h pl p w = do_decompress h (sourceFile p) (extractDir p) 1 w"
  by (simp add: ensure_installed_def)

lemma ensure_installed_fetch_ok:
  "\<not> (existsSync (fs w) (extractDir p) \<and> existsSync (fs w) (execFile p))
     \<Longrightarrow> \<not> existsSync (fs w) (sourceFile p)
     \<Longrightarrow> download_impl h (fs w) (platform_source pl) (sourceDir p) (sourceFileName p) = (None, fs')
     \<Longrightarrow> ensure_installed h pl p w
         = do_decompress h (sourceFile p) (extractDir p) 1
             ((emit (Download (platform_source pl) (sourceDir p) (sourceFileName p)) w)\<lparr>fs := fs'\<rparr>)"
  by (simp add: ensure_installed_def do_download_result)

lemma ensure_installed_fetch_failed:
  "\<not> (existsSync (fs w) (extractDir p) \<and> existsSync (fs w) (execFile p))
     \<Longrightarrow> \<not> existsSync (fs w) (sourceFile p)
     \<Longrightarrow> download_impl h (fs w) (platform_source pl) (sourceDir p) (sourceFileName p) = (Some e, fs')
     \<Longrightarrow> ensure_installed h pl p w
         = (Some e, (emit (Download (platform_source pl) (sourceDir p) (sourceFileName p)) w)\<lparr>fs := fs'\<rparr>)"
  by (simp add: ensure_installed_def do_download_result)

lemma events_since_self: "events_since w w = []"
  by (simp add: events_since_def)

lemma events_since_decompress:
  "events_since w (snd (do_decompress h src dst n w)) = [Decompress src dst n]"
  by (simp add: events_since_def do_decompress_trace)

lemma events_since_download_decompress:
  "events_since w (snd (do_decompress h src dst n ((emit ev w)\<lparr>fs := fs'\<rparr>))) = [ev, Decompress src dst n]"
  by (simp add: events_since_def do_decompress_trace emit_simps)

lemma do_decompress_result:
  "do_decompress h src dst n w
     = (fst (decompress_impl h (fs w) src dst n),
        (emit (Decompress src dst n) w)\<lparr>fs := snd (decompress_impl h (fs w) src dst n)\<rparr>)"
  by (simp add: do_decompress_def split: prod.splits)

lemma do_mkdirp_trace: "trace (snd (do_mkdirp h p w)) = trace w @ [Mkdirp p]"
  by (simp add: do_mkdirp_def emit_simps split: prod.splits)

lemma do_remove_trace: "trace (snd (do_remove h p w)) = trace w @ [Remove p]"
  by (simp add: do_remove_def emit_simps split: prod.splits)

lemma do_open_trace: "trace (snd (do_open h p fl w)) = trace w @ [Open p fl]"
  by (simp add: do_open_def emit_simps split: prod.splits sum.splits)

lemma do_execa_trace: "trace (snd (do_execa h exe argv out err w)) = trace w @ [Spawn exe argv out err]"
  by (simp add: do_execa_def emit_simps)

lemma onShutdown_trace: "trace (onShutdown c w) = trace w @ [OnShutdown c]"
  by (simp add: onShutdown_def emit_simps)

lemma do_download_trace:
  "trace (snd (do_download h url dir fn w)) = trace w @ [Download url dir fn]"
  by (simp add: do_download_def emit_simps split: prod.splits)

lemma ensure_installed_trace:
  "\<exists>evs. trace (snd (ensure_installed h pl p w)) = trace w @ evs"
proof (cases "existsSync (fs w) (extractDir p) \<and> existsSync (fs w) (execFile p)")
  case True
  then show ?thesis by (simp add: ensure_installed_skip)
next
  case False
  show ?thesis
  proof (cases "existsSync (fs w) (sourceFile p)")
    case True
    then show ?thesis using False by (simp add: ensure_installed_cached do_decompress_trace)
  next
    case no: False
    obtain r fs' where dl:
      "download_impl h (fs w) (platform_source pl) (sourceDir p) (sourceFileName p) = (r, fs')"
      by (cases "download_impl h (fs w) (platform_source pl) (sourceDir p) (sourceFileName p)")
    show ?thesis
    proof (cases r)
      case None
      then show ?thesis
        using False no dl by (simp add: ensure_installed_fetch_ok do_decompress_trace emit_simps)
    next
      case (Some e)
      then show ?thesis
        using False no dl by (simp add: ensure_installed_fetch_failed emit_simps)
    qed
  qed
qed

section \<open>The whole call\<close>

lemma startMongo_steps:
  assumes "find_platform f (apply_defaults pe f opts) = Some pl"
      and "resolve_paths (cwd pe) f (apply_defaults pe f opts) pl = Inr p"
  shows "startMongo h pe f opts w =
     (case do_mkdirp h (dataDir p) w of
        (Some e, w1) \<Rightarrow> (Inl e, w1)
      | (None, w1) \<Rightarrow>
     (case ensure_installed h pl p w1 of
        (Some e, w2) \<Rightarrow> (Inl e, w2)
      | (None, w2) \<Rightarrow>
     (case do_mkdirp h (logsDir p) w2 of
        (Some e, w3) \<Rightarrow> (Inl e, w3)
      | (None, w3) \<Rightarrow>
     (case do_remove h (logFile p) w3 of
        (Some e, w4) \<Rightarrow> (Inl e, w4)
      | (None, w4) \<Rightarrow>
     (case do_open h (logFile p) ''w+'' w4 of
        (Inl e, w5) \<Rightarrow> (Inl e, w5)
      | (Inr logsFile, w5) \<Rightarrow>
          (case do_execa h (execFile p)
                  (build_exec_args (formula_execArgs f) (read_prop (opts_port (apply_defaults pe f opts)))
                     (dataDir p) (opts_args (apply_defaults pe f opts)))
                  logsFile logsFile w5 of
             (srv, w6) \<Rightarrow> (Inr \<lparr> server = srv \<rparr>, onShutdown srv w6)))))))"
  using assms unfolding startMongo_def Let_def by simp

lemma launch_trace:
  "\<exists>tail. trace (snd
      (case do_mkdirp h logs w2 of
        (Some e, w3) \<Rightarrow> (Inl e, w3)
      | (None, w3) \<Rightarrow>
     (case do_remove h logf w3 of
        (Some e, w4) \<Rightarrow> (Inl e, w4)
      | (None, w4) \<Rightarrow>
     (case do_open h logf ''w+'' w4 of
        (Inl e, w5) \<Rightarrow> (Inl e, w5)
      | (Inr logsFile, w5) \<Rightarrow>
          (case do_execa h exe argv logsFile logsFile w5 of
             (srv, w6) \<Rightarrow> (Inr \<lparr> server = srv \<rparr>, onShutdown srv w6)))))) = trace w2 @ tail
     \<and> filter is_download tail = [] \<and> filter is_decompress tail = []"
proof -
  obtain r3 w3 where s3: "do_mkdirp h logs w2 = (r3, w3)" by (cases "do_mkdirp h logs w2")
  have t3: "trace w3 = trace w2 @ [Mkdirp logs]" using do_mkdirp_trace [where h = h and p = logs and w = w2] s3 by simp
  show ?thesis
  proof (cases r3)
    case (Some e)
    then show ?thesis using s3 t3 by simp
  next
    case None
    obtain r4 w4 where s4: "do_remove h logf w3 = (r4, w4)" by (cases "do_remove h logf w3")
    have t4: "trace w4 = trace w3 @ [Remove logf]" using do_remove_trace [where h = h and p = logf and w = w3] s4 by simp
    show ?thesis
    proof (cases r4)
      case (Some e)
      then show ?thesis using None s3 s4 t3 t4 by simp
    next
      case n4: None
      obtain r5 w5 where s5: "do_open h logf ''w+'' w4 = (r5, w5)" by (cases "do_open h logf ''w+'' w4")
      have t5: "trace w5 = trace w4 @ [Open logf ''w+'']"
        using do_open_trace [where h = h and p = logf and fl = "''w+''" and w = w4] s5 by simp
      show ?thesis
      proof (cases r5)
        case (Inl e)
        then show ?thesis using None n4 s3 s4 s5 t3 t4 t5 by simp
      next
        case (Inr fd)
        obtain srv w6 where s6: "do_execa h exe argv fd fd w5 = (srv, w6)"
          by (cases "do_execa h exe argv fd fd w5")
        have t6: "trace w6 = trace w5 @ [Spawn exe argv fd fd]"
          using do_execa_trace [where h = h and exe = exe and argv = argv and out = fd and err = fd and w = w5] s6
          by simp
        show ?thesis using None n4 Inr s3 s4 s5 s6 t3 t4 t5 t6 by (simp add: onShutdown_trace)
      qed
    qed
  qed
qed

lemma startMongo_events:
  assumes found: "find_platform f (apply_defaults pe f opts) = Some pl"
      and paths: "resolve_paths (cwd pe) f (apply_defaults pe f opts) pl = Inr p"
      and mk: "do_mkdirp h (dataDir p) w0 = (None, w1)"
  shows "\<exists>tail. events_since w0 (snd (startMongo h pe f opts w0))
            = Mkdirp (dataDir p) # events_since w1 (snd (ensure_installed h pl p w1)) @ tail
          \<and> filter is_download tail = [] \<and> filter is_decompress tail = []"
proof -
  have t1: "trace w1 = trace w0 @ [Mkdirp (dataDir p)]"
    using do_mkdirp_trace [where h = h and p = "dataDir p" and w = w0] mk by simp
  obtain r2 w2 where s2: "ensure_installed h pl p w1 = (r2, w2)"
    by (cases "ensure_installed h pl p w1")
  obtain evs where t2: "trace w2 = trace w1 @ evs"
    using ensure_installed_trace [where h = h and pl = pl and p = p and w = w1] s2 by auto
  have e2: "events_since w1 (snd (ensure_installed h pl p w1)) = evs"
    using s2 t2 by (simp add: events_since_def)
  show ?thesis
  proof (cases r2)
    case (Some e)
    then have "startMongo h pe f opts w0 = (Inl e, w2)"
      by (simp add: startMongo_steps [OF found paths] mk s2)
    then show ?thesis using t1 t2 e2 by (simp add: events_since_def)
  next
    case None
    let ?args = "build_exec_args (formula_execArgs f) (read_prop (opts_port (apply_defaults pe f opts)))
                     (dataDir p) (opts_args (apply_defaults pe f opts))"
    obtain tail where tl: "trace (snd
      (case do_mkdirp h (logsDir p) w2 of
        (Some e, w3) \<Rightarrow> (Inl e, w3)
      | (None, w3) \<Rightarrow>
     (case do_remove h (logFile p) w3 of
        (Some e, w4) \<Rightarrow> (Inl e, w4)
      | (None, w4) \<Rightarrow>
     (case do_open h (logFile p) ''w+'' w4 of
        (Inl e, w5) \<Rightarrow> (Inl e, w5)
      | (Inr logsFile, w5) \<Rightarrow>
          (case do_execa h (execFile p) ?args logsFile logsFile w5 of
             (srv, w6) \<Rightarrow> (Inr \<lparr> server = srv \<rparr>, onShutdown srv w6)))))) = trace w2 @ tail"
      "filter is_download tail = []" "filter is_decompress tail = []"
      using launch_trace [where h = h and logs = "logsDir p" and ?w2.0 = w2 and logf = "logFile p"
          and exe = "execFile p" and argv = ?args] by blast
    have "trace (snd (startMongo h pe f opts w0)) = trace w2 @ tail"
      using tl(1) None by (simp add: startMongo_steps [OF found paths] mk s2)
    then show ?thesis using t1 t2 e2 tl(2,3) by (simp add: events_since_def)
  qed
qed

lemma example_platform:
  "find_platform example_formula (apply_defaults example_env example_formula no_opts) = Some linux_platform"
  by (simp add: find_platform_def apply_defaults_def example_formula_def example_env_def no_opts_def
      linux_platform_def spread_def read_prop_def js_or_def env_get_def)

lemma example_resolved:
  "resolve_paths (cwd example_env) example_formula (apply_defaults example_env example_formula no_opts)
     linux_platform = Inr example_paths"
  by (simp add: resolve_paths_def example_env_def example_formula_def apply_defaults_def no_opts_def
      linux_platform_def example_paths_def bind_err_def path_resolve_def resolve_posix_def abs_path_def
      normalize_segments_def extname_def last_segment_def spread_def read_prop_def js_or_def
      env_get_def Let_def)

lemma example_args:
  "build_exec_args (formula_execArgs example_formula)
     (read_prop (opts_port (apply_defaults example_env example_formula no_opts)))
     (dataDir example_paths) (opts_args (apply_defaults example_env example_formula no_opts))
   = [''--port'', ''27111'', ''--dbpath'', ''/tmp/mongo/data/default/mongodb'']"
  by (simp add: build_exec_args_def example_formula_def example_env_def apply_defaults_def no_opts_def
      example_paths_def spread_def read_prop_def js_or_def env_get_def js_replace_def Let_def)

lemmas host_steps =
  do_mkdirp_def do_remove_def do_open_def do_execa_def do_download_def do_decompress_def
  onShutdown_def emit_def ensure_installed_def existsSync_def

lemma example_run:
  "fst (startMongo good_host example_env example_formula no_opts empty_world)
     = Inr \<lparr> server = Spawned 0 \<rparr>"
  "trace (snd (startMongo good_host example_env example_formula no_opts empty_world))
     = [Mkdirp ''/tmp/mongo/data/default/mongodb'',
        Download ''https://example.org/dl/mongodb-linux.tgz'' ''/tmp/mongo/source/mongodb/4.0.3/linux''
          ''mongodb-4.0.3-linux.tgz'',
        Decompress ''/tmp/mongo/source/mongodb/4.0.3/linux/mongodb-4.0.3-linux.tgz''
          ''/tmp/mongo/source/mongodb/4.0.3/linux/unpacked'' 1,
        Mkdirp ''/tmp/mongo/logs/default/mongodb'',
        Remove ''/tmp/mongo/logs/default/mongodb/logs.txt'',
        Open ''/tmp/mongo/logs/default/mongodb/logs.txt'' ''w+'',
        Spawn ''/tmp/mongo/source/mongodb/4.0.3/linux/unpacked/bin/mongod''
          [''--port'', ''27111'', ''--dbpath'', ''/tmp/mongo/data/default/mongodb''] 3 3,
        OnShutdown (Spawned 0)]"
  "open_fds (snd (startMongo good_host example_env example_formula no_opts empty_world))
     = [(3, ''/tmp/mongo/logs/default/mongodb/logs.txt'')]"
  "exited (snd (startMongo good_host example_env example_formula no_opts empty_world)) = []"
  "sigterms (snd (startMongo good_host example_env example_formula no_opts empty_world)) = []"
  "hooks (snd (startMongo good_host example_env example_formula no_opts empty_world)) = [Spawned 0]"
  unfolding startMongo_steps [OF example_platform example_resolved] example_args
  by (simp_all add: host_steps good_host_def empty_world_def example_paths_def linux_platform_def)

lemma example_mkdirp:
  "do_mkdirp interrupted_host (dataDir example_paths) empty_world
     = (None, (emit (Mkdirp (dataDir example_paths)) empty_world)
                \<lparr>fs := (fs empty_world)(dataDir example_paths \<mapsto> Dir)\<rparr>)"
  by (simp add: do_mkdirp_def interrupted_host_def good_host_def)

lemma archive_mkdirp:
  "do_mkdirp good_host (dataDir example_paths) archive_world
     = (None, (emit (Mkdirp (dataDir example_paths)) archive_world)
                \<lparr>fs := (fs archive_world)(dataDir example_paths \<mapsto> Dir)\<rparr>)"
  by (simp add: do_mkdirp_def good_host_def)

lemma interrupted_run:
  "startMongo interrupted_host example_env example_formula no_opts empty_world
     = (Inl (HostError ''transfer interrupted''),
        \<lparr> fs = [''/tmp/mongo/data/default/mongodb'' \<mapsto> Dir,
                ''/tmp/mongo/source/mongodb/4.0.3/linux/mongodb-4.0.3-linux.tgz'' \<mapsto> File ''arch''],
          trace = [Mkdirp ''/tmp/mongo/data/default/mongodb'',
                   Download ''https://example.org/dl/mongodb-linux.tgz''
                     ''/tmp/mongo/source/mongodb/4.0.3/linux'' ''mongodb-4.0.3-linux.tgz''],
          open_fds = [], children = [], exited = [], hooks = [], sigterms = [] \<rparr>)"
  unfolding startMongo_steps [OF example_platform example_resolved] example_args
  by (simp add: host_steps interrupted_host_def good_host_def empty_world_def example_paths_def
      linux_platform_def)

lemma partial_run:
  "trace (snd (startMongo good_host example_env example_formula no_opts partial_world))
     = [Mkdirp ''/tmp/mongo/data/default/mongodb'',
        Mkdirp ''/tmp/mongo/logs/default/mongodb'',
        Remove ''/tmp/mongo/logs/default/mongodb/logs.txt'',
        Open ''/tmp/mongo/logs/default/mongodb/logs.txt'' ''w+'',
        Spawn ''/tmp/mongo/source/mongodb/4.0.3/linux/unpacked/bin/mongod''
          [''--port'', ''27111'', ''--dbpath'', ''/tmp/mongo/data/default/mongodb''] 3 3,
        OnShutdown (Spawned 0)]"
  "fs (snd (startMongo good_host example_env example_formula no_opts partial_world))
     ''/tmp/mongo/source/mongodb/4.0.3/linux/unpacked/bin/mongos'' = None"
  unfolding startMongo_steps [OF example_platform example_resolved] example_args
  by (simp_all add: host_steps good_host_def partial_world_def empty_world_def example_paths_def
      linux_platform_def)

text \<open>
  Claim C3. When the archive \<open>sourceFile\<close> exists as the install step (lines 58 to 71)
  starts, the step makes no download call; and since no other part of \<open>startMongo\<close>
  downloads, the whole call makes none when the archive exists once the data directory
  has been made.
\<close>

theorem ensure_installed_cache_hit:
  assumes hit: "existsSync (fs w) (sourceFile p)"
  shows "filter is_download (events_since w (snd (ensure_installed h pl p w))) = []
       \<and> (find_platform f (apply_defaults pe f opts) = Some pl
            \<and> resolve_paths (cwd pe) f (apply_defaults pe f opts) pl = Inr p
            \<and> do_mkdirp h (dataDir p) w0 = (None, w)
          \<longrightarrow> filter is_download (events_since w0 (snd (startMongo h pe f opts w0))) = [])"
proof -
  have step: "filter is_download (events_since w (snd (ensure_installed h pl p w))) = []"
  proof (cases "existsSync (fs w) (extractDir p) \<and> existsSync (fs w) (execFile p)")
    case True
    then show ?thesis by (simp add: ensure_installed_skip events_since_self)
  next
    case False
    then show ?thesis using hit by (simp add: ensure_installed_cached events_since_decompress)
  qed
  have whole: "filter is_download (events_since w0 (snd (startMongo h pe f opts w0))) = []"
    if found: "find_platform f (apply_defaults pe f opts) = Some pl"
      and paths: "resolve_paths (cwd pe) f (apply_defaults pe f opts) pl = Inr p"
      and mk: "do_mkdirp h (dataDir p) w0 = (None, w)"
  proof -
    obtain tail where "events_since w0 (snd (startMongo h pe f opts w0))
            = Mkdirp (dataDir p) # events_since w (snd (ensure_installed h pl p w)) @ tail"
      "filter is_download tail = []"
      using startMongo_events [OF found paths mk] by blast
    then show ?thesis using step by simp
  qed
  show ?thesis using step whole by blast
qed

text \<open>
  On a disk that holds only the archive, neither the install step nor the whole call
  downloads anything.
\<close>

theorem ensure_installed_cache_hit_witness:
  "existsSync (fs archive_world) (sourceFile example_paths)
   \<and> filter is_download (events_since archive_world
          (snd (ensure_installed good_host linux_platform example_paths archive_world))) = []
   \<and> filter is_download (events_since archive_world
          (snd (startMongo good_host example_env example_formula no_opts archive_world))) = []"
proof -
  let ?w = "(emit (Mkdirp (dataDir example_paths)) archive_world)
                \<lparr>fs := (fs archive_world)(dataDir example_paths \<mapsto> Dir)\<rparr>"
  have h0: "existsSync (fs archive_world) (sourceFile example_paths)"
    by (simp add: existsSync_def archive_world_def)
  have h1: "existsSync (fs ?w) (sourceFile example_paths)"
    by (simp add: existsSync_def archive_world_def example_paths_def)
  show ?thesis
    using ensure_installed_cache_hit [OF h0, of good_host linux_platform]
      ensure_installed_cache_hit [OF h1, where h = good_host and pl = linux_platform
        and f = example_formula and pe = example_env and opts = no_opts and ?w0.0 = archive_world]
      example_platform example_resolved archive_mkdirp h0
    by simp
qed

text \<open>
  Claim C4 (amended). The install step tests existence only. Provided the archive is there
  or its download succeeds: when both \<open>extractDir\<close> and \<open>execFile\<close> exist the step does
  nothing; otherwise \<open>decompress\<close> is called once, on \<open>sourceFile\<close>, into \<open>extractDir\<close>,
  with \<open>strip: 1\<close>, after the download when the archive was absent, and the step fails or
  succeeds as that call does and leaves the files as that call leaves them. So
  decompression is skipped if and only if both exist, for the step and for the whole call; a
  tree that lacks \<open>extractDir\<close> or \<open>execFile\<close> is unpacked again from the cached archive
  without a download.
\<close>

theorem ensure_installed_extraction:
  assumes avail: "existsSync (fs w) (sourceFile p)
      \<or> fst (download_impl h (fs w) (platform_source pl) (sourceDir p) (sourceFileName p)) = None"
  shows "ensure_installed h pl p w
           = (if existsSync (fs w) (extractDir p) \<and> existsSync (fs w) (execFile p) then (None, w)
              else (let w1 = (if existsSync (fs w) (sourceFile p) then w
                              else (emit (Download (platform_source pl) (sourceDir p) (sourceFileName p)) w)
                                     \<lparr>fs := snd (download_impl h (fs w) (platform_source pl)
                                                   (sourceDir p) (sourceFileName p))\<rparr>);
                        r = decompress_impl h (fs w1) (sourceFile p) (extractDir p) 1
                    in (fst r, (emit (Decompress (sourceFile p) (extractDir p) 1) w1)\<lparr>fs := snd r\<rparr>)))
       \<and> events_since w (snd (ensure_installed h pl p w))
           = (if existsSync (fs w) (extractDir p) \<and> existsSync (fs w) (execFile p) then []
              else (if existsSync (fs w) (sourceFile p) then []
                    else [Download (platform_source pl) (sourceDir p) (sourceFileName p)])
                   @ [Decompress (sourceFile p) (extractDir p) 1])
       \<and> (filter is_decompress (events_since w (snd (ensure_installed h pl p w))) = []
            \<longleftrightarrow> existsSync (fs w) (extractDir p) \<and> existsSync (fs w) (execFile p))
       \<and> (find_platform f (apply_defaults pe f opts) = Some pl
            \<and> resolve_paths (cwd pe) f (apply_defaults pe f opts) pl = Inr p
            \<and> do_mkdirp h (dataDir p) w0 = (None, w)
          \<longrightarrow> (filter is_decompress (events_since w0 (snd (startMongo h pe f opts w0))) = []
                \<longleftrightarrow> existsSync (fs w) (extractDir p) \<and> existsSync (fs w) (execFile p)))"
proof -
  let ?both = "existsSync (fs w) (extractDir p) \<and> existsSync (fs w) (execFile p)"
  let ?dl = "download_impl h (fs w) (platform_source pl) (sourceDir p) (sourceFileName p)"
  let ?w1 = "if existsSync (fs w) (sourceFile p) then w
             else (emit (Download (platform_source pl) (sourceDir p) (sourceFileName p)) w)\<lparr>fs := snd ?dl\<rparr>"
  have run: "ensure_installed h pl p w
      = (if ?both then (None, w) else do_decompress h (sourceFile p) (extractDir p) 1 ?w1)"
  proof (cases ?both)
    case True
    then have "ensure_installed h pl p w = (None, w)" by (simp add: ensure_installed_skip)
    then show ?thesis by (simp only: True if_True simp_thms)
  next
    case False
    show ?thesis
    proof (cases "existsSync (fs w) (sourceFile p)")
      case True
      have "ensure_installed h pl p w = do_decompress h (sourceFile p) (extractDir p) 1 w"
        using False True by (rule ensure_installed_cached)
      then show ?thesis by (simp only: False True if_False if_True simp_thms)
    next
      case no: False
      then have "fst ?dl = None" using avail by simp
      then have "?dl = (None, snd ?dl)" by (cases ?dl) simp
      then have "ensure_installed h pl p w
           = do_decompress h (sourceFile p) (extractDir p) 1
               ((emit (Download (platform_source pl) (sourceDir p) (sourceFileName p)) w)\<lparr>fs := snd ?dl\<rparr>)"
        using False no ensure_installed_fetch_ok by blast
      then show ?thesis by (simp only: False no if_False simp_thms)
    qed
  qed
  have outcome: "ensure_installed h pl p w
           = (if ?both then (None, w)
              else (let w1 = ?w1; r = decompress_impl h (fs w1) (sourceFile p) (extractDir p) 1
                    in (fst r, (emit (Decompress (sourceFile p) (extractDir p) 1) w1)\<lparr>fs := snd r\<rparr>)))"
    unfolding Let_def by (subst run) (simp only: do_decompress_result)
  have ev: "events_since w (snd (ensure_installed h pl p w))
           = (if ?both then []
              else (if existsSync (fs w) (sourceFile p) then []
                    else [Download (platform_source pl) (sourceDir p) (sourceFileName p)])
                   @ [Decompress (sourceFile p) (extractDir p) 1])"
  proof (cases ?both)
    case True
    then show ?thesis unfolding run by (simp only: True if_True snd_conv events_since_self simp_thms)
  next
    case False
    show ?thesis
    proof (cases "existsSync (fs w) (sourceFile p)")
      case True
      show ?thesis unfolding run
        by (simp only: False True if_False if_True events_since_decompress append_Nil simp_thms)
    next
      case no: False
      show ?thesis unfolding run
        by (simp only: False no if_False events_since_download_decompress append_Cons append_Nil simp_thms)
    qed
  qed
  have step: "filter is_decompress (events_since w (snd (ensure_installed h pl p w))) = [] \<longleftrightarrow> ?both"
    unfolding ev by simp
  have whole: "filter is_decompress (events_since w0 (snd (startMongo h pe f opts w0))) = [] \<longleftrightarrow> ?both"
    if found: "find_platform f (apply_defaults pe f opts) = Some pl"
      and paths: "resolve_paths (cwd pe) f (apply_defaults pe f opts) pl = Inr p"
      and mk: "do_mkdirp h (dataDir p) w0 = (None, w)"
  proof -
    obtain tail where "events_since w0 (snd (startMongo h pe f opts w0))
            = Mkdirp (dataDir p) # events_since w (snd (ensure_installed h pl p w)) @ tail"
      "filter is_decompress tail = []"
      using startMongo_events [OF found paths mk] by blast
    then show ?thesis using step by simp
  qed
  show ?thesis using outcome ev step whole by blast
qed

text \<open>
  Three disks: fully installed (nothing is done), archive only (decompression only, after
  which the host's files are there), empty (download, then decompression); the whole call
  on the archive-only disk decompresses.
\<close>

theorem ensure_installed_extraction_witness:
  "ensure_installed good_host linux_platform example_paths installed_world = (None, installed_world)
   \<and> events_since archive_world
        (snd (ensure_installed good_host linux_platform example_paths archive_world))
       = [Decompress (sourceFile example_paths) (extractDir example_paths) 1]
   \<and> fst (ensure_installed good_host linux_platform example_paths archive_world) = None
   \<and> fs (snd (ensure_installed good_host linux_platform example_paths archive_world))
        (extractDir example_paths @ ''/bin/mongos'') = Some (File ''mongos'')
   \<and> events_since empty_world
        (snd (ensure_installed good_host linux_platform example_paths empty_world))
       = [Download (platform_source linux_platform) (sourceDir example_paths) (sourceFileName example_paths),
          Decompress (sourceFile example_paths) (extractDir example_paths) 1]
   \<and> filter is_decompress (events_since archive_world
          (snd (startMongo good_host example_env example_formula no_opts archive_world))) \<noteq> []"
proof -
  let ?w = "(emit (Mkdirp (dataDir example_paths)) archive_world)
                \<lparr>fs := (fs archive_world)(dataDir example_paths \<mapsto> Dir)\<rparr>"
  have i: "existsSync (fs installed_world) (sourceFile example_paths)"
    "existsSync (fs installed_world) (extractDir example_paths)"
    "existsSync (fs installed_world) (execFile example_paths)"
    by (simp_all add: existsSync_def installed_world_def)
  have a: "existsSync (fs archive_world) (sourceFile example_paths)"
    "\<not> existsSync (fs archive_world) (extractDir example_paths)"
    by (simp_all add: existsSync_def archive_world_def example_paths_def)
  have a1: "existsSync (fs ?w) (sourceFile example_paths)"
    "\<not> existsSync (fs ?w) (extractDir example_paths)"
    by (simp_all add: existsSync_def archive_world_def example_paths_def)
  have e: "\<not> existsSync (fs empty_world) (sourceFile example_paths)"
    "\<not> existsSync (fs empty_world) (extractDir example_paths)"
    "fst (download_impl good_host (fs empty_world) (platform_source linux_platform)
            (sourceDir example_paths) (sourceFileName example_paths)) = None"
    by (simp_all add: existsSync_def empty_world_def good_host_def)
  have d: "decompress_impl good_host (fs archive_world) (sourceFile example_paths) (extractDir example_paths) 1
      = (None, (fs archive_world)(extractDir example_paths \<mapsto> Dir,
                  extractDir example_paths @ ''/bin/mongod'' \<mapsto> File ''mongod'',
                  extractDir example_paths @ ''/bin/mongos'' \<mapsto> File ''mongos''))"
    by (simp add: good_host_def)
  have whole: "filter is_decompress (events_since archive_world
          (snd (startMongo good_host example_env example_formula no_opts archive_world))) \<noteq> []"
    using ensure_installed_extraction [where w = ?w and p = example_paths and h = good_host
        and pl = linux_platform and f = example_formula and pe = example_env and opts = no_opts
        and ?w0.0 = archive_world]
      example_platform example_resolved archive_mkdirp a1
    by simp
  have skip: "ensure_installed good_host linux_platform example_paths installed_world
      = (None, installed_world)"
    using ensure_installed_extraction [OF disjI1 [OF i(1)], where h = good_host and pl = linux_platform,
        THEN conjunct1] i(2,3)
    by simp
  have cached: "ensure_installed good_host linux_platform example_paths archive_world
      = (None, (emit (Decompress (sourceFile example_paths) (extractDir example_paths) 1) archive_world)
           \<lparr>fs := (fs archive_world)(extractDir example_paths \<mapsto> Dir,
                  extractDir example_paths @ ''/bin/mongod'' \<mapsto> File ''mongod'',
                  extractDir example_paths @ ''/bin/mongos'' \<mapsto> File ''mongos'')\<rparr>)"
    using ensure_installed_extraction [OF disjI1 [OF a(1)], where h = good_host and pl = linux_platform,
        THEN conjunct1] a d
    by (simp add: Let_def)
  have cached_events: "events_since archive_world
        (snd (ensure_installed good_host linux_platform example_paths archive_world))
       = [Decompress (sourceFile example_paths) (extractDir example_paths) 1]"
    using ensure_installed_extraction [OF disjI1 [OF a(1)], where h = good_host and pl = linux_platform,
        THEN conjunct2, THEN conjunct1] a
    by simp
  have fetched_events: "events_since empty_world
        (snd (ensure_installed good_host linux_platform example_paths empty_world))
       = [Download (platform_source linux_platform) (sourceDir example_paths) (sourceFileName example_paths),
          Decompress (sourceFile example_paths) (extractDir example_paths) 1]"
    using ensure_installed_extraction [OF disjI2 [OF e(3)], THEN conjunct2, THEN conjunct1] e(1,2)
    by simp
  show ?thesis
    using skip cached cached_events fetched_events whole by simp
qed

text \<open>
  Claim C4 as stated has every partially unpacked tree unpacked again from the cached
  archive. On a disk where unpacking broke off after \<open>bin/mongod\<close>, the executable, was
  written, both tests of line 58 pass: nothing is decompressed, and \<open>bin/mongos\<close>, which
  decompression would write, is still missing after the call.
\<close>

theorem partial_tree_skipped_counterexample:
  "existsSync (fs partial_world) (sourceFile example_paths)
   \<and> fs partial_world (extractDir example_paths @ ''/bin/mongos'') = None
   \<and> snd (decompress_impl good_host (fs partial_world) (sourceFile example_paths)
             (extractDir example_paths) 1)
        (extractDir example_paths @ ''/bin/mongos'') = Some (File ''mongos'')
   \<and> ensure_installed good_host linux_platform example_paths partial_world = (None, partial_world)
   \<and> filter is_decompress (events_since partial_world
        (snd (startMongo good_host example_env example_formula no_opts partial_world))) = []
   \<and> fs (snd (startMongo good_host example_env example_formula no_opts partial_world))
        (extractDir example_paths @ ''/bin/mongos'') = None"
proof -
  have ex: "existsSync (fs partial_world) (sourceFile example_paths)"
    "existsSync (fs partial_world) (extractDir example_paths)"
    "existsSync (fs partial_world) (execFile example_paths)"
    by (simp_all add: existsSync_def partial_world_def)
  have missing: "fs partial_world (extractDir example_paths @ ''/bin/mongos'') = None"
    by (simp add: partial_world_def empty_world_def example_paths_def)
  have would: "snd (decompress_impl good_host (fs partial_world) (sourceFile example_paths)
             (extractDir example_paths) 1)
        (extractDir example_paths @ ''/bin/mongos'') = Some (File ''mongos'')"
    by (simp add: good_host_def)
  have skip: "ensure_installed good_host linux_platform example_paths partial_world = (None, partial_world)"
    using ex by (simp add: ensure_installed_skip)
  have tr: "trace partial_world = []" by (simp add: partial_world_def empty_world_def)
  have none: "filter is_decompress (events_since partial_world
        (snd (startMongo good_host example_env example_formula no_opts partial_world))) = []"
    by (simp add: events_since_def partial_run(1) tr)
  have still: "fs (snd (startMongo good_host example_env example_formula no_opts partial_world))
        (extractDir example_paths @ ''/bin/mongos'') = None"
    using partial_run(2) by (simp add: example_paths_def)
  show ?thesis using ex(1) missing would skip none still by simp
qed

text \<open>
  Claim C5 (amended). When the download fails, \<open>startMongo\<close> fails with the download's
  error right after the download call: nothing is decompressed or spawned, and the file
  system is what the failed download left. The code neither removes nor checks what is at
  \<open>sourceFile\<close>: a later install step downloads again exactly when no file exists there
  (and the unpacked tree is incomplete), so whether a broken transfer is mistaken for a
  cached archive rests on the download writing the file only when the transfer is complete.
\<close>

theorem startMongo_transfer_failure:
  assumes found: "find_platform f (apply_defaults pe f opts) = Some pl"
      and paths: "resolve_paths (cwd pe) f (apply_defaults pe f opts) pl = Inr p"
      and mk: "do_mkdirp h (dataDir p) w0 = (None, w)"
      and needed: "\<not> (existsSync (fs w) (extractDir p) \<and> existsSync (fs w) (execFile p))"
      and absent: "\<not> existsSync (fs w) (sourceFile p)"
      and failed: "download_impl h (fs w) (platform_source pl) (sourceDir p) (sourceFileName p) = (Some e, fs')"
  shows "startMongo h pe f opts w0
           = (Inl e, (emit (Download (platform_source pl) (sourceDir p) (sourceFileName p)) w)\<lparr>fs := fs'\<rparr>)
       \<and> (\<forall>h2 w2. fs w2 = fs' \<longrightarrow>
            ((\<exists>ev \<in> set (events_since w2 (snd (ensure_installed h2 pl p w2))). is_download ev)
             \<longleftrightarrow> \<not> existsSync fs' (sourceFile p)
                 \<and> \<not> (existsSync fs' (extractDir p) \<and> existsSync fs' (execFile p))))"
proof -
  have inst: "ensure_installed h pl p w
           = (Some e, (emit (Download (platform_source pl) (sourceDir p) (sourceFileName p)) w)\<lparr>fs := fs'\<rparr>)"
    using needed absent failed by (rule ensure_installed_fetch_failed)
  have first: "startMongo h pe f opts w0
           = (Inl e, (emit (Download (platform_source pl) (sourceDir p) (sourceFileName p)) w)\<lparr>fs := fs'\<rparr>)"
    by (simp add: startMongo_steps [OF found paths] mk inst)
  have later: "(\<exists>ev \<in> set (events_since w2 (snd (ensure_installed h2 pl p w2))). is_download ev)
             \<longleftrightarrow> \<not> existsSync fs' (sourceFile p)
                 \<and> \<not> (existsSync fs' (extractDir p) \<and> existsSync fs' (execFile p))"
    if eq: "fs w2 = fs'" for h2 w2
  proof (cases "existsSync (fs w2) (extractDir p) \<and> existsSync (fs w2) (execFile p)")
    case True
    then show ?thesis using eq by (simp add: ensure_installed_skip events_since_self)
  next
    case False
    show ?thesis
    proof (cases "existsSync (fs w2) (sourceFile p)")
      case True
      then show ?thesis using False eq by (simp add: ensure_installed_cached events_since_decompress)
    next
      case no: False
      obtain r fs2 where dl:
        "download_impl h2 (fs w2) (platform_source pl) (sourceDir p) (sourceFileName p) = (r, fs2)"
        by (cases "download_impl h2 (fs w2) (platform_source pl) (sourceDir p) (sourceFileName p)")
      have ev: "\<exists>ev \<in> set (events_since w2 (snd (ensure_installed h2 pl p w2))). is_download ev"
      proof (cases r)
        case None
        then show ?thesis
          using False no dl by (simp add: ensure_installed_fetch_ok events_since_download_decompress)
      next
        case (Some e2)
        then show ?thesis
          using False no dl by (simp add: ensure_installed_fetch_failed events_since_def emit_simps)
      qed
      then show ?thesis using False no eq by simp
    qed
  qed
  show ?thesis using first later by blast
qed

text \<open>
  The interrupted host on an empty disk: the call fails with the transfer's error, after
  the data directory was made and the download was tried.
\<close>

theorem startMongo_transfer_failure_witness:
  "startMongo interrupted_host example_env example_formula no_opts empty_world
     = (Inl (HostError ''transfer interrupted''),
        (emit (Download (platform_source linux_platform) (sourceDir example_paths)
                 (sourceFileName example_paths))
           ((emit (Mkdirp (dataDir example_paths)) empty_world)
              \<lparr>fs := (fs empty_world)(dataDir example_paths \<mapsto> Dir)\<rparr>))
          \<lparr>fs := (fs empty_world)(dataDir example_paths \<mapsto> Dir,
                   sourceDir example_paths @ ''/'' @ sourceFileName example_paths \<mapsto> File ''arch'')\<rparr>)"
proof -
  let ?w = "(emit (Mkdirp (dataDir example_paths)) empty_world)
              \<lparr>fs := (fs empty_world)(dataDir example_paths \<mapsto> Dir)\<rparr>"
  let ?fs' = "(fs empty_world)(dataDir example_paths \<mapsto> Dir,
                   sourceDir example_paths @ ''/'' @ sourceFileName example_paths \<mapsto> File ''arch'')"
  have needed: "\<not> (existsSync (fs ?w) (extractDir example_paths) \<and> existsSync (fs ?w) (execFile example_paths))"
    by (simp add: existsSync_def empty_world_def example_paths_def)
  have absent: "\<not> existsSync (fs ?w) (sourceFile example_paths)"
    by (simp add: existsSync_def empty_world_def example_paths_def)
  have failed: "download_impl interrupted_host (fs ?w) (platform_source linux_platform)
        (sourceDir example_paths) (sourceFileName example_paths)
      = (Some (HostError ''transfer interrupted''), ?fs')"
    by (simp add: interrupted_host_def)
  show ?thesis
    using startMongo_transfer_failure [OF example_platform example_resolved example_mkdirp needed absent failed]
    by simp
qed

text \<open>
  Claim C5 as stated says a broken transfer is never taken for a cache hit. On a host
  whose transfer breaks off with part of the archive written, the first call fails, the
  partial file \<open>arch\<close> is at \<open>sourceFile\<close>, and the next call makes no download: it
  hands the partial file to decompression.
\<close>

theorem partial_download_cache_hit_counterexample:
  "fst (startMongo interrupted_host example_env example_formula no_opts empty_world)
     = Inl (HostError ''transfer interrupted'')
   \<and> fs (snd (startMongo interrupted_host example_env example_formula no_opts empty_world))
        (sourceFile example_paths) = Some (File ''arch'')
   \<and> events_since (snd (startMongo interrupted_host example_env example_formula no_opts empty_world))
        (snd (startMongo good_host example_env example_formula no_opts
               (snd (startMongo interrupted_host example_env example_formula no_opts empty_world))))
      = [Mkdirp ''/tmp/mongo/data/default/mongodb'',
         Decompress ''/tmp/mongo/source/mongodb/4.0.3/linux/mongodb-4.0.3-linux.tgz''
           ''/tmp/mongo/source/mongodb/4.0.3/linux/unpacked'' 1,
         Mkdirp ''/tmp/mongo/logs/default/mongodb'',
         Remove ''/tmp/mongo/logs/default/mongodb/logs.txt'',
         Open ''/tmp/mongo/logs/default/mongodb/logs.txt'' ''w+'',
         Spawn ''/tmp/mongo/source/mongodb/4.0.3/linux/unpacked/bin/mongod''
           [''--port'', ''27111'', ''--dbpath'', ''/tmp/mongo/data/default/mongodb''] 3 3,
         OnShutdown (Spawned 0)]"
proof -
  let ?w1 = "snd (startMongo interrupted_host example_env example_formula no_opts empty_world)"
  have a: "fs ?w1 (sourceFile example_paths) = Some (File ''arch'')"
    by (simp add: interrupted_run example_paths_def)
  have b: "events_since ?w1 (snd (startMongo good_host example_env example_formula no_opts ?w1))
      = [Mkdirp ''/tmp/mongo/data/default/mongodb'',
         Decompress ''/tmp/mongo/source/mongodb/4.0.3/linux/mongodb-4.0.3-linux.tgz''
           ''/tmp/mongo/source/mongodb/4.0.3/linux/unpacked'' 1,
         Mkdirp ''/tmp/mongo/logs/default/mongodb'',
         Remove ''/tmp/mongo/logs/default/mongodb/logs.txt'',
         Open ''/tmp/mongo/logs/default/mongodb/logs.txt'' ''w+'',
         Spawn ''/tmp/mongo/source/mongodb/4.0.3/linux/unpacked/bin/mongod''
           [''--port'', ''27111'', ''--dbpath'', ''/tmp/mongo/data/default/mongodb''] 3 3,
         OnShutdown (Spawned 0)]"
    unfolding startMongo_steps [OF example_platform example_resolved, of good_host] example_args
    by (simp add: host_steps events_since_def interrupted_run good_host_def example_paths_def
        linux_platform_def)
  show ?thesis using interrupted_run a b by simp
qed

section \<open>Shutdown\<close>

lemma close_spawn_failed:
  "server svc = SpawnFailed \<Longrightarrow> close svc w = (Threw (TypeError ''server.cancel is not a function''), w)"
  by (simp add: close_def)

lemma cancel_simps:
  "fs (cancel c w) = fs w" "open_fds (cancel c w) = open_fds w" "children (cancel c w) = children w"
  "exited (cancel c w) = exited w" "hooks (cancel c w) = hooks w"
  "trace (cancel c w) = trace w @ [Cancel c]"
  "sigterms (cancel c w) = sigterms w @ (if c \<in> set (exited w) then [] else [c])"
  by (simp_all add: cancel_def emit_simps)

lemma nul_port_platform:
  "find_platform example_formula (apply_defaults example_env example_formula nul_port_opts)
     = Some linux_platform"
  by (simp add: find_platform_def apply_defaults_def example_formula_def example_env_def
      nul_port_opts_def no_opts_def linux_platform_def spread_def read_prop_def js_or_def env_get_def)

lemma nul_port_resolved:
  "resolve_paths (cwd example_env) example_formula
     (apply_defaults example_env example_formula nul_port_opts) linux_platform = Inr example_paths"
  by (simp add: resolve_paths_def example_env_def example_formula_def apply_defaults_def
      nul_port_opts_def no_opts_def linux_platform_def example_paths_def bind_err_def path_resolve_def
      resolve_posix_def abs_path_def normalize_segments_def extname_def last_segment_def spread_def
      read_prop_def js_or_def env_get_def Let_def)

lemma nul_port_args:
  "build_exec_args (formula_execArgs example_formula)
     (read_prop (opts_port (apply_defaults example_env example_formula nul_port_opts)))
     (dataDir example_paths) (opts_args (apply_defaults example_env example_formula nul_port_opts))
   = [''--port'', ''27111'' @ [CHR 0x00], ''--dbpath'', ''/tmp/mongo/data/default/mongodb'']"
  by (simp add: build_exec_args_def example_formula_def example_env_def apply_defaults_def
      nul_port_opts_def no_opts_def example_paths_def spread_def read_prop_def js_or_def env_get_def
      js_replace_def Let_def)

text \<open>
  A port with a NUL character: the spawn throws inside \<open>execa\<close>, \<open>startMongo\<close> still
  returns a handle, and \<open>close\<close> on that handle throws a \<open>TypeError\<close>.
\<close>

lemma failed_spawn_handle:
  "fst (startMongo good_host example_env example_formula nul_port_opts empty_world)
     = Inr \<lparr> server = SpawnFailed \<rparr>"
  "fst (close \<lparr> server = SpawnFailed \<rparr>
     (snd (startMongo good_host example_env example_formula nul_port_opts empty_world)))
     = Threw (TypeError ''server.cancel is not a function'')"
  unfolding startMongo_steps [OF nul_port_platform nul_port_resolved] nul_port_args
  by (simp_all add: host_steps good_host_def empty_world_def example_paths_def linux_platform_def
      close_def)

text \<open>
  Claim C10. \<open>close()\<close> makes its cancel request (one entry in the trace, and the signal
  when the child is still there; nothing at all on the handle of a spawn that threw) and
  changes nothing else: the files, the open file descriptors (the log file's among them),
  the children and the shutdown hooks are as before.
\<close>

theorem close_frame:
  "fs (snd (close svc w)) = fs w
   \<and> open_fds (snd (close svc w)) = open_fds w
   \<and> children (snd (close svc w)) = children w
   \<and> exited (snd (close svc w)) = exited w
   \<and> hooks (snd (close svc w)) = hooks w
   \<and> trace (snd (close svc w))
       = trace w @ (case server svc of Spawned c \<Rightarrow> [Cancel c] | SpawnFailed \<Rightarrow> [])
   \<and> sigterms (snd (close svc w))
       = sigterms w @ (case server svc of
                         Spawned c \<Rightarrow> if c \<in> set (exited w) then [] else [c]
                       | SpawnFailed \<Rightarrow> [])"
  by (cases "server svc") (simp_all add: close_def cancel_simps)

text \<open>
  After a complete run the log file's descriptor is open; it is still open after
  \<open>close\<close>, the files are the same and the trace has one more entry; on the handle of a
  spawn that threw the trace is the same too.
\<close>

theorem close_frame_witness:
  "open_fds (snd (startMongo good_host example_env example_formula no_opts empty_world))
     = [(3, ''/tmp/mongo/logs/default/mongodb/logs.txt'')]
   \<and> open_fds (snd (close \<lparr> server = Spawned 0 \<rparr>
        (snd (startMongo good_host example_env example_formula no_opts empty_world))))
     = [(3, ''/tmp/mongo/logs/default/mongodb/logs.txt'')]
   \<and> fs (snd (close \<lparr> server = Spawned 0 \<rparr>
        (snd (startMongo good_host example_env example_formula no_opts empty_world))))
     = fs (snd (startMongo good_host example_env example_formula no_opts empty_world))
   \<and> trace (snd (close \<lparr> server = Spawned 0 \<rparr>
        (snd (startMongo good_host example_env example_formula no_opts empty_world))))
     = trace (snd (startMongo good_host example_env example_formula no_opts empty_world)) @ [Cancel 0]
   \<and> trace (snd (close \<lparr> server = SpawnFailed \<rparr>
        (snd (startMongo good_host example_env example_formula no_opts empty_world))))
     = trace (snd (startMongo good_host example_env example_formula no_opts empty_world))"
  using close_frame [of "\<lparr> server = Spawned 0 \<rparr>"
      "snd (startMongo good_host example_env example_formula no_opts empty_world)"]
    close_frame [of "\<lparr> server = SpawnFailed \<rparr>"
      "snd (startMongo good_host example_env example_formula no_opts empty_world)"]
    example_run(3)
  by simp

text \<open>
  Claim C6 (amended). On a handle whose child was spawned, \<open>close()\<close> resolves every time
  it is called and each call makes one cancel request: two calls make two, and each sends
  a signal while the child is still there. When the child has already exited, \<open>close()\<close>
  resolves all the same and no signal is sent.
\<close>

theorem close_twice:
  assumes spawned: "server svc = Spawned c"
  shows "fst (close svc w) = Resolved
       \<and> fst (close svc (snd (close svc w))) = Resolved
       \<and> events_since w (snd (close svc (snd (close svc w)))) = [Cancel c, Cancel c]
       \<and> sigterms (snd (close svc (snd (close svc w))))
           = sigterms w @ (if c \<in> set (exited w) then [] else [c, c])
       \<and> fst (close svc (child_exits c w)) = Resolved
       \<and> events_since w (snd (close svc (child_exits c w))) = [Cancel c]
       \<and> sigterms (snd (close svc (child_exits c w))) = sigterms w"
proof -
  have one: "close svc v = (Resolved, cancel c v)" for v
    using spawned by (simp add: close_def)
  have gone: "c \<in> set (exited (child_exits c w))" "trace (child_exits c w) = trace w"
    "sigterms (child_exits c w) = sigterms w"
    by (simp_all add: child_exits_def)
  show ?thesis
    using gone by (simp add: one cancel_simps events_since_def)
qed

text \<open>
  The handle of a complete run: two calls of \<open>close\<close> resolve and send two signals; after
  the child has exited, \<open>close\<close> resolves and sends none.
\<close>

theorem close_twice_witness:
  "fst (startMongo good_host example_env example_formula no_opts empty_world)
     = Inr \<lparr> server = Spawned 0 \<rparr>
   \<and> fst (close \<lparr> server = Spawned 0 \<rparr>
        (snd (startMongo good_host example_env example_formula no_opts empty_world))) = Resolved
   \<and> fst (close \<lparr> server = Spawned 0 \<rparr>
        (snd (close \<lparr> server = Spawned 0 \<rparr>
           (snd (startMongo good_host example_env example_formula no_opts empty_world))))) = Resolved
   \<and> events_since (snd (startMongo good_host example_env example_formula no_opts empty_world))
        (snd (close \<lparr> server = Spawned 0 \<rparr>
           (snd (close \<lparr> server = Spawned 0 \<rparr>
              (snd (startMongo good_host example_env example_formula no_opts empty_world))))))
       = [Cancel 0, Cancel 0]
   \<and> sigterms (snd (close \<lparr> server = Spawned 0 \<rparr>
           (snd (close \<lparr> server = Spawned 0 \<rparr>
              (snd (startMongo good_host example_env example_formula no_opts empty_world))))))
       = [0, 0]
   \<and> fst (close \<lparr> server = Spawned 0 \<rparr>
        (child_exits 0 (snd (startMongo good_host example_env example_formula no_opts empty_world))))
       = Resolved
   \<and> sigterms (snd (close \<lparr> server = Spawned 0 \<rparr>
        (child_exits 0 (snd (startMongo good_host example_env example_formula no_opts empty_world)))))
       = []"
proof -
  have h: "server \<lparr> server = Spawned 0 \<rparr> = Spawned 0" by simp
  show ?thesis
    using close_twice [OF h, of "snd (startMongo good_host example_env example_formula no_opts empty_world)"]
      example_run(1,4,5)
    by simp
qed

text \<open>
  Claim C6 as stated allows at most one termination request for two calls of \<open>close\<close>.
  On the handle that \<open>startMongo\<close> returns, two calls make two cancel requests and two
  signals reach the child.
\<close>

theorem close_twice_counterexample:
  "fst (startMongo good_host example_env example_formula no_opts empty_world)
     = Inr \<lparr> server = Spawned 0 \<rparr>
   \<and> filter is_cancel
        (events_since (snd (startMongo good_host example_env example_formula no_opts empty_world))
           (snd (close \<lparr> server = Spawned 0 \<rparr>
              (snd (close \<lparr> server = Spawned 0 \<rparr>
                 (snd (startMongo good_host example_env example_formula no_opts empty_world)))))))
      = [Cancel 0, Cancel 0]
   \<and> \<not> length (filter is_cancel
        (events_since (snd (startMongo good_host example_env example_formula no_opts empty_world))
           (snd (close \<lparr> server = Spawned 0 \<rparr>
              (snd (close \<lparr> server = Spawned 0 \<rparr>
                 (snd (startMongo good_host example_env example_formula no_opts empty_world)))))))) \<le> 1
   \<and> sigterms (snd (close \<lparr> server = Spawned 0 \<rparr>
              (snd (close \<lparr> server = Spawned 0 \<rparr>
                 (snd (startMongo good_host example_env example_formula no_opts empty_world))))))
      = [0, 0]"
  using example_run(1,4,5) by (simp add: close_def cancel_simps events_since_def)

end
